theory Spec2Isabelle
  imports Main "HOL-Library.Sublist" "HOL-Library.Monad_Syntax"
begin

section \<open>Thrown values\<close>

text \<open>
  The resilience layer inspects caught values of TypeScript type \<open>unknown\<close>.  Both
  classifiers first test \<^verbatim>\<open>typeof error !== 'object' || error === null\<close> and then read
  the optional string fields \<open>code\<close> and \<open>message\<close> (the cast in the source is to
  \<^verbatim>\<open>{ code?: string; message?: string }\<close>).  A thrown value is therefore one of:
  \<open>undefined\<close>, \<open>null\<close>, another primitive, or an object with the two optional
  fields.
\<close>

datatype jserror =
    ThrownUndefined
  | ThrownNull
  | ThrownPrimitive string
  | ThrownObject "string option" "string option"

text \<open>\<^verbatim>\<open>err.message?.includes(msg) ?? false\<close>: substring test, false on a missing message.\<close>

definition message_includes :: "string option \<Rightarrow> string \<Rightarrow> bool" where
  "message_includes m msg = (case m of None \<Rightarrow> False | Some s \<Rightarrow> sublist msg s)"

section \<open>Circuit breaker (src/utils/circuit-breaker.ts)\<close>

definition connectionErrorMessages :: "string list" where
  "connectionErrorMessages =
     [''Connection terminated unexpectedly'',
      ''connection timeout'',
      ''ECONNRESET'',
      ''ETIMEDOUT'',
      ''ECONNREFUSED'']"

fun isConnectionError :: "jserror \<Rightarrow> bool" where
  "isConnectionError (ThrownObject c m) =
     list_ex (\<lambda>msg. message_includes m msg) connectionErrorMessages"
| "isConnectionError _ = False"

text \<open>
  \<open>CircuitBreakerState\<close>: the counter only ever starts at 0, is incremented, or is set
  to 0, so it is a natural number; \<open>lastFailure\<close> is \<open>Date | null\<close>, a time in
  milliseconds since the epoch or \<open>None\<close>.
\<close>

record CircuitBreakerState =
  failures :: nat
  lastFailure :: "int option"
  isOpen :: bool

text \<open>
  The private configuration of a \<open>CircuitBreaker\<close>.  \<open>threshold\<close> and \<open>timeout\<close>
  come from the options or from \<open>parseInt\<close> of an environment variable, so they are
  integers of either sign; the classifier is pluggable.
\<close>

record CircuitBreaker =
  threshold :: int
  timeout :: int
  cb_isConnectionError :: "jserror \<Rightarrow> bool"

definition initial_state :: CircuitBreakerState where
  "initial_state = \<lparr>failures = 0, lastFailure = None, isOpen = False\<rparr>"

definition default_breaker :: CircuitBreaker where
  "default_breaker =
     \<lparr>threshold = 5, timeout = 60000, cb_isConnectionError = isConnectionError\<rparr>"

definition cb_open :: "CircuitBreakerState \<Rightarrow> CircuitBreakerState" where
  "cb_open s = s\<lparr>isOpen := True\<rparr>"

definition cb_reset :: "CircuitBreakerState \<Rightarrow> CircuitBreakerState" where
  "cb_reset s = s\<lparr>isOpen := False, failures := 0\<rparr>"

text \<open>
  \<open>isRequestAllowed\<close> reads the clock once (\<open>now\<close>) and returns the answer with the
  possibly reset state.  \<^verbatim>\<open>this.state.lastFailure?.getTime() || 0\<close> is 0 for a null
  timestamp (and for the timestamp 0 itself).
\<close>

definition isRequestAllowed ::
  "CircuitBreaker \<Rightarrow> int \<Rightarrow> CircuitBreakerState \<Rightarrow> bool \<times> CircuitBreakerState" where
  "isRequestAllowed cb now s =
     (if \<not> isOpen s then (True, s)
      else
        let timeSinceLastFailure =
              now - (case lastFailure s of None \<Rightarrow> 0 | Some t \<Rightarrow> t)
        in if timeSinceLastFailure > timeout cb then (True, cb_reset s)
           else (False, s))"

definition recordSuccess :: "CircuitBreakerState \<Rightarrow> CircuitBreakerState" where
  "recordSuccess s = (if failures s > 0 then s\<lparr>failures := 0\<rparr> else s)"

definition recordFailure ::
  "CircuitBreaker \<Rightarrow> int \<Rightarrow> jserror \<Rightarrow> CircuitBreakerState \<Rightarrow> CircuitBreakerState" where
  "recordFailure cb now error s =
     (if \<not> cb_isConnectionError cb error then s
      else
        let s1 = s\<lparr>failures := failures s + 1, lastFailure := Some now\<rparr>
        in if int (failures s1) \<ge> threshold cb then cb_open s1 else s1)"

text \<open>
  \<open>execute\<close>: the operation acts on some world \<open>'w\<close> and either returns a value or
  throws.  The clock is read by the admission check (\<open>now\<close>) and again when a failure is
  recorded (\<open>now'\<close>).
\<close>

definition circuit_open_error :: jserror where
  "circuit_open_error = ThrownObject None (Some ''Circuit breaker is open'')"

definition execute ::
  "CircuitBreaker \<Rightarrow> int \<Rightarrow> int \<Rightarrow> ('w \<Rightarrow> (jserror + 'a) \<times> 'w) \<Rightarrow>
     CircuitBreakerState \<times> 'w \<Rightarrow> (jserror + 'a) \<times> CircuitBreakerState \<times> 'w" where
  "execute cb now now' operation sw =
     (case isRequestAllowed cb now (fst sw) of
        (False, s1) \<Rightarrow> (Inl circuit_open_error, s1, snd sw)
      | (True, s1) \<Rightarrow>
          (case operation (snd sw) of
             (Inr result, w') \<Rightarrow> (Inr result, recordSuccess s1, w')
           | (Inl error, w') \<Rightarrow> (Inl error, recordFailure cb now' error s1, w')))"

text \<open>A run of \<open>recordFailure\<close> calls, each with the clock value read at that call.\<close>

fun recordFailures ::
  "CircuitBreaker \<Rightarrow> (int \<times> jserror) list \<Rightarrow> CircuitBreakerState \<Rightarrow> CircuitBreakerState" where
  "recordFailures cb [] s = s"
| "recordFailures cb (ne # rest) s = recordFailures cb rest (recordFailure cb (fst ne) (snd ne) s)"

section \<open>Retry with exponential backoff (src/utils/retry.ts)\<close>

definition retriableCodes :: "string list" where
  "retriableCodes =
     [''57P01'', ''57P02'', ''57P03'', ''08000'', ''08003'', ''08006'', ''08P01'', ''53300'']"

definition retriableMessages :: "string list" where
  "retriableMessages =
     [''Connection terminated unexpectedly'',
      ''connection timeout'',
      ''ECONNRESET'',
      ''ETIMEDOUT'',
      ''ECONNREFUSED'',
      ''Client has encountered a connection error'']"

fun isRetriableDatabaseError :: "jserror \<Rightarrow> bool" where
  "isRetriableDatabaseError (ThrownObject c m) =
     ((case c of None \<Rightarrow> False | Some code \<Rightarrow> code \<in> set retriableCodes)
      \<or> list_ex (\<lambda>msg. message_includes m msg) retriableMessages)"
| "isRetriableDatabaseError _ = False"

record RetryOptions =
  maxRetries :: int
  backoffBase :: int
  maxBackoff :: int
  isRetriable :: "jserror \<Rightarrow> bool"

definition default_retry :: RetryOptions where
  "default_retry =
     \<lparr>maxRetries = 3, backoffBase = 1000, maxBackoff = 10000,
      isRetriable = isRetriableDatabaseError\<rparr>"

definition calculateBackoff :: "nat \<Rightarrow> int \<Rightarrow> int \<Rightarrow> int" where
  "calculateBackoff attempt base mx = min (base * 2 ^ attempt) mx"

text \<open>
  What a call of \<open>withRetry\<close> leaves behind: the world after the last invocation, how
  often the operation was invoked, and the delays slept, in order.
\<close>

record 'w retry_trace =
  world :: 'w
  invocations :: nat
  sleeps :: "int list"

text \<open>
  The \<open>for\<close> loop of \<open>withRetry\<close>, entered with the loop variable \<open>attempt\<close>.  An
  operation is a function from the world to an outcome and the next world, so each
  invocation may behave differently.  The statement after the loop throws
  \<open>lastError\<close>, which is still \<open>undefined\<close> when the body never ran.
\<close>

function withRetry_loop ::
  "RetryOptions \<Rightarrow> ('w \<Rightarrow> (jserror + 'a) \<times> 'w) \<Rightarrow> nat \<Rightarrow> jserror \<Rightarrow> 'w retry_trace \<Rightarrow>
     (jserror + 'a) \<times> 'w retry_trace" where
  "withRetry_loop opts operation attempt lastError tr =
     (if int attempt \<le> maxRetries opts then
        (case fst (operation (world tr)) of
           Inr result \<Rightarrow>
             (Inr result,
              tr\<lparr>world := snd (operation (world tr)), invocations := invocations tr + 1\<rparr>)
         | Inl error \<Rightarrow>
             (if \<not> isRetriable opts error \<or> int attempt = maxRetries opts then
                (Inl error,
                 tr\<lparr>world := snd (operation (world tr)), invocations := invocations tr + 1\<rparr>)
              else
                withRetry_loop opts operation (attempt + 1) error
                  (tr\<lparr>world := snd (operation (world tr)),
                      invocations := invocations tr + 1,
                      sleeps := sleeps tr @
                        [calculateBackoff attempt (backoffBase opts) (maxBackoff opts)]\<rparr>)))
      else (Inl lastError, tr))"
  by pat_completeness auto
termination
  by (relation "measure (\<lambda>(opts, operation, attempt, lastError, tr).
        nat (maxRetries opts + 1 - int attempt))") auto

definition withRetry ::
  "RetryOptions \<Rightarrow> ('w \<Rightarrow> (jserror + 'a) \<times> 'w) \<Rightarrow> 'w \<Rightarrow> (jserror + 'a) \<times> 'w retry_trace" where
  "withRetry opts operation w =
     withRetry_loop opts operation 0 ThrownUndefined \<lparr>world = w, invocations = 0, sleeps = []\<rparr>"

section \<open>Strings and parsed values\<close>

text \<open>
  Strings are lists of 8-bit characters.  The string operations of the source that the
  parser uses are written out below; on this character range the white space of
  \<open>trim\<close> and of the regular expression class \<^verbatim>\<open>\s\<close> is TAB, LF, VT, FF, CR, SPACE
  and NBSP.
\<close>

definition is_space :: "char \<Rightarrow> bool" where
  "is_space c = (c \<in> set [CHR 0x09, CHR 0x0A, CHR 0x0B, CHR 0x0C, CHR 0x0D, CHR 0x20, CHR 0xA0])"

definition is_digit :: "char \<Rightarrow> bool" where
  "is_digit c = (c \<in> set ''0123456789'')"

definition is_upper :: "char \<Rightarrow> bool" where
  "is_upper c = (c \<in> set ''ABCDEFGHIJKLMNOPQRSTUVWXYZ'')"

definition trim :: "string \<Rightarrow> string" where
  "trim s = rev (dropWhile is_space (rev (dropWhile is_space s)))"

definition startsWith :: "string \<Rightarrow> string \<Rightarrow> bool" where
  "startsWith s p = prefix p s"

text \<open>
  \<open>s.split(sep)\<close> for a one-character separator: the pieces between separators; the
  empty string gives one empty piece.
\<close>

fun split_on :: "char \<Rightarrow> string \<Rightarrow> string list" where
  "split_on sep [] = [[]]"
| "split_on sep (c # cs) =
     (if c = sep then [] # split_on sep cs
      else (case split_on sep cs of
              [] \<Rightarrow> [[c]]
            | l # ls \<Rightarrow> (c # l) # ls))"

text \<open>
  \<open>toUpperCase\<close> is only ever compared with the constants \<open>PERM\<close> and \<open>PERMANENT\<close>;
  only the letters a to z have an upper-case form among A to Z.
\<close>

definition upper_char :: "char \<Rightarrow> char" where
  "upper_char c =
     (case map_of (zip ''abcdefghijklmnopqrstuvwxyz'' ''ABCDEFGHIJKLMNOPQRSTUVWXYZ'') c of
        None \<Rightarrow> c
      | Some u \<Rightarrow> u)"

definition toUpperCase :: "string \<Rightarrow> string" where
  "toUpperCase s = map upper_char s"

text \<open>\<open>parseInt(s, 10)\<close> on a string of decimal digits.\<close>

definition parseInt_digits :: "string \<Rightarrow> int" where
  "parseInt_digits s = foldl (\<lambda>a c. 10 * a + (of_char c - 48)) 0 s"

fun nat_to_string :: "nat \<Rightarrow> string" where
  "nat_to_string n =
     (if n < 10 then [''0123456789'' ! n]
      else nat_to_string (n div 10) @ [''0123456789'' ! (n mod 10)])"

text \<open>
  The tree that the XML library returns: a dynamically shaped value.  Numeric leaves are
  integers, printed in decimal.
\<close>

datatype jsval =
    JUndefined
  | JNull
  | JBool bool
  | JNum int
  | JStr string
  | JObj "(string \<times> jsval) list"
  | JArr "jsval list"

fun truthy :: "jsval \<Rightarrow> bool" where
  "truthy JUndefined = False"
| "truthy JNull = False"
| "truthy (JBool b) = b"
| "truthy (JNum n) = (n \<noteq> 0)"
| "truthy (JStr s) = (s \<noteq> [])"
| "truthy (JObj kvs) = True"
| "truthy (JArr vs) = True"

text \<open>\<^verbatim>\<open>typeof v === 'object'\<close> (true of \<open>null\<close> as well).\<close>

fun typeof_object :: "jsval \<Rightarrow> bool" where
  "typeof_object JNull = True"
| "typeof_object (JObj kvs) = True"
| "typeof_object (JArr vs) = True"
| "typeof_object _ = False"

text \<open>
  Property access \<open>v[k]\<close>.  On \<open>undefined\<close> and \<open>null\<close> it throws a TypeError
  (\<open>None\<close>); on an object it is the member or \<open>undefined\<close>; on any other value it is
  \<open>undefined\<close>, as none of the keys the parser asks for is an index, \<open>length\<close> or a
  prototype member.
\<close>

fun getprop :: "jsval \<Rightarrow> string \<Rightarrow> jsval option" where
  "getprop JUndefined k = None"
| "getprop JNull k = None"
| "getprop (JObj kvs) k = Some (case map_of kvs k of None \<Rightarrow> JUndefined | Some v \<Rightarrow> v)"
| "getprop v k = Some JUndefined"

text \<open>\<open>v[k1] || v[k2] || ...\<close> for a non-empty list of keys.\<close>

fun getprop_or :: "jsval \<Rightarrow> string list \<Rightarrow> jsval option" where
  "getprop_or v [] = Some JUndefined"
| "getprop_or v [k] = getprop v k"
| "getprop_or v (k # ks) =
     (case getprop v k of
        None \<Rightarrow> None
      | Some x \<Rightarrow> if truthy x then Some x else getprop_or v ks)"

text \<open>
  \<open>String(v)\<close>.  An object is converted by its \<open>toString\<close> method: an object with
  no member of its own of that name inherits the standard one and gives
  \<open>[object Object]\<close>; a member of its own named \<open>toString\<close> is a parsed value, not a
  function, and the conversion throws a TypeError (\<open>None\<close>).  An array joins the
  conversions of its elements, so it throws when one of them does.
\<close>

fun join_comma :: "string list \<Rightarrow> string" where
  "join_comma [] = []"
| "join_comma [s] = s"
| "join_comma (s # ss) = s @ '','' @ join_comma ss"

fun js_String :: "jsval \<Rightarrow> string option" where
  "js_String JUndefined = Some ''undefined''"
| "js_String JNull = Some ''null''"
| "js_String (JBool b) = Some (if b then ''true'' else ''false'')"
| "js_String (JNum n) =
     Some (if n < 0 then ''-'' @ nat_to_string (nat (- n)) else nat_to_string (nat n))"
| "js_String (JStr s) = Some s"
| "js_String (JObj kvs) =
     (if map_of kvs ''toString'' = None then Some ''[object Object]'' else None)"
| "js_String (JArr vs) =
     map_option join_comma
       (those (map (\<lambda>v. case v of JUndefined \<Rightarrow> Some [] | JNull \<Rightarrow> Some [] | _ \<Rightarrow> js_String v) vs))"

section \<open>Canonical record (src/models/notam.ts)\<close>

record QLine =
  ql_purpose :: "string option"
  ql_scope :: "string option"
  ql_traffic_type :: "string option"
  ql_lower_altitude :: "string option"
  ql_upper_altitude :: "string option"
  ql_coordinates :: "string option"

text \<open>Times are milliseconds since the epoch.\<close>

record NOTAM =
  notam_id :: string
  icao_location :: string
  effective_start :: int
  effective_end :: "int option"
  schedule :: "string option"
  notam_text :: string
  q_line :: "QLine option"
  purpose :: "string option"
  scope :: "string option"
  traffic_type :: "string option"
  raw_message :: "string option"

section \<open>Message parser (src/services/notam-parser.ts)\<close>

text \<open>
  What the parser takes from its runtime: the XML library (\<open>None\<close> when it throws) and
  the \<open>Date\<close> constructor on a string (\<open>None\<close> for an invalid date).
\<close>

record runtime =
  xml_parse :: "string \<Rightarrow> jsval option"
  date_parse :: "string \<Rightarrow> int option"

text \<open>
  \<open>Date.UTC(year, month, day, hour, minute)\<close> in milliseconds: years 0 to 99 mean
  1900 to 1999, the month index may overflow into later years, and day, hour and minute
  are added as they are.
\<close>

definition days_from_civil :: "int \<Rightarrow> int \<Rightarrow> int \<Rightarrow> int" where
  "days_from_civil y m d =
     (let y' = (if m \<le> 2 then y - 1 else y);
          era = y' div 400;
          yoe = y' - era * 400;
          doy = (153 * (if m > 2 then m - 3 else m + 9) + 2) div 5 + d - 1;
          doe = yoe * 365 + yoe div 4 - yoe div 100 + doy
      in era * 146097 + doe - 719468)"

definition Date_UTC :: "int \<Rightarrow> int \<Rightarrow> int \<Rightarrow> int \<Rightarrow> int \<Rightarrow> int" where
  "Date_UTC year month day hour minute =
     (let yr = (if 0 \<le> year \<and> year \<le> 99 then 1900 + year else year);
          ym = yr + month div 12;
          mn = month mod 12
      in (days_from_civil ym (mn + 1) 1 + (day - 1)) * 86400000
         + hour * 3600000 + minute * 60000)"

text \<open>\<open>s.substring(a, b)\<close> for \<open>a \<le> b\<close>.\<close>

definition substring :: "string \<Rightarrow> nat \<Rightarrow> nat \<Rightarrow> string" where
  "substring s a b = take (b - a) (drop a s)"

text \<open>
  The dotted-name branch of \<open>extractField\<close>: walk the parts while the value is a truthy
  object.  A truthy value has every property access defined, so the \<open>None\<close> case of
  \<open>getprop\<close> cannot arise there.
\<close>

fun nested_field :: "jsval \<Rightarrow> string list \<Rightarrow> jsval" where
  "nested_field v [] = v"
| "nested_field v (part # parts) =
     (if truthy v \<and> typeof_object v then
        (case getprop v part of
           None \<Rightarrow> JUndefined
         | Some x \<Rightarrow> nested_field x parts)
      else JUndefined)"

text \<open>
  \<open>extractField\<close> returns \<open>string | undefined\<close>; the outer \<open>option\<close> is \<open>None\<close> when a
  property access or the conversion \<open>String(value)\<close> throws.
\<close>

fun extractField :: "jsval \<Rightarrow> string list \<Rightarrow> string option option" where
  "extractField data [] = Some None"
| "extractField data (fieldName # rest) =
     (if CHR ''.'' \<in> set fieldName then
        (let v = nested_field data (split_on (CHR ''.'') fieldName)
         in if v \<noteq> JUndefined \<and> v \<noteq> JNull then map_option Some (js_String v)
            else extractField data rest)
      else if CHR '':'' \<in> set fieldName then
        (case getprop data fieldName of
           None \<Rightarrow> None
         | Some v \<Rightarrow>
             if v \<noteq> JUndefined \<and> v \<noteq> JNull then map_option Some (js_String v)
             else extractField data rest)
      else
        (case getprop_or data [fieldName, ''aixm:'' @ fieldName, ''event:'' @ fieldName] of
           None \<Rightarrow> None
         | Some v \<Rightarrow>
             if v \<noteq> JUndefined \<and> v \<noteq> JNull then map_option Some (js_String v)
             else extractField data rest))"

definition parseDate :: "runtime \<Rightarrow> string option \<Rightarrow> int option" where
  "parseDate rt dateStr =
     (case dateStr of
        None \<Rightarrow> None
      | Some s \<Rightarrow>
          if s = [] then None
          else if toUpperCase s = ''PERM'' \<or> toUpperCase s = ''PERMANENT'' then None
          else
            (case date_parse rt s of
               Some d \<Rightarrow> Some d
             | None \<Rightarrow>
                 if length s = 12 \<and> list_all is_digit s then
                   Some (Date_UTC
                     (parseInt_digits (substring s 0 4))
                     (parseInt_digits (substring s 4 6) - 1)
                     (parseInt_digits (substring s 6 8))
                     (parseInt_digits (substring s 8 10))
                     (parseInt_digits (substring s 10 12)))
                 else if length s = 10 \<and> list_all is_digit s then
                   Some (Date_UTC
                     (2000 + parseInt_digits (substring s 0 2))
                     (parseInt_digits (substring s 2 4) - 1)
                     (parseInt_digits (substring s 4 6))
                     (parseInt_digits (substring s 6 8))
                     (parseInt_digits (substring s 8 10)))
                 else None))"

definition extractQLine :: "jsval \<Rightarrow> QLine option option" where
  "extractQLine data =
     do {
       qLineData \<leftarrow> getprop_or data [''qLine'', ''QLine'', ''aixm:qLine''];
       if \<not> truthy qLineData \<or> \<not> typeof_object qLineData then Some None
       else do {
         p \<leftarrow> extractField qLineData [''purpose'', ''Purpose''];
         s \<leftarrow> extractField qLineData [''scope'', ''Scope''];
         t \<leftarrow> extractField qLineData [''trafficType'', ''TrafficType''];
         lo \<leftarrow> extractField qLineData [''lowerAltitude'', ''LowerLimit''];
         up \<leftarrow> extractField qLineData [''upperAltitude'', ''UpperLimit''];
         co \<leftarrow> extractField qLineData [''coordinates'', ''Coordinates''];
         Some (Some \<lparr>ql_purpose = p, ql_scope = s, ql_traffic_type = t,
                     ql_lower_altitude = lo, ql_upper_altitude = up, ql_coordinates = co\<rparr>)
       }
     }"

text \<open>\<open>x || ''\<close>, \<open>x || null\<close> and \<open>x || d\<close> on a \<open>string | undefined\<close>.\<close>

definition or_default :: "string option \<Rightarrow> string \<Rightarrow> string" where
  "or_default x d = (case x of None \<Rightarrow> d | Some s \<Rightarrow> if s = [] then d else s)"

definition or_null :: "string option \<Rightarrow> string option" where
  "or_null x = (case x of None \<Rightarrow> None | Some s \<Rightarrow> if s = [] then None else Some s)"

text \<open>
  The block of \<open>extractNOTAMFromData\<close> that consults the \<open>gml:validTime\<close> section of
  the event time slice when a date is still missing; it returns the two dates.
\<close>

definition validTime_dates ::
  "runtime \<Rightarrow> jsval \<Rightarrow> int option \<Rightarrow> int option \<Rightarrow> (int option \<times> int option) option" where
  "validTime_dates rt eventTimeSlice effectiveStart effectiveEnd =
     (if effectiveStart = None \<or> effectiveEnd = None then
        do {
          validTime \<leftarrow> getprop_or eventTimeSlice [''gml:validTime'', ''validTime''];
          if truthy validTime \<and> typeof_object validTime then
            do {
              timePeriod \<leftarrow> getprop_or validTime [''gml:TimePeriod'', ''TimePeriod''];
              if truthy timePeriod \<and> typeof_object timePeriod then
                do {
                  beginPos \<leftarrow> getprop_or timePeriod [''gml:beginPosition'', ''beginPosition''];
                  endPos \<leftarrow> getprop_or timePeriod [''gml:endPosition'', ''endPosition''];
                  start \<leftarrow> (if truthy beginPos \<and> effectiveStart = None
                            then map_option (\<lambda>str. parseDate rt (Some str)) (js_String beginPos)
                            else Some effectiveStart);
                  ending \<leftarrow> (if truthy endPos \<and> effectiveEnd = None
                             then map_option (\<lambda>str. parseDate rt (Some str)) (js_String endPos)
                             else Some effectiveEnd);
                  Some (start, ending)
                }
              else Some (effectiveStart, effectiveEnd)
            }
          else Some (effectiveStart, effectiveEnd)
        }
      else Some (effectiveStart, effectiveEnd))"

text \<open>
  \<open>extractNOTAMFromData\<close>; \<open>now\<close> is the reading of \<open>new Date()\<close>.  The result is
  \<open>None\<close> only if a property access or a conversion to a string throws.
\<close>

definition extractNOTAMFromData ::
  "runtime \<Rightarrow> int \<Rightarrow> jsval \<Rightarrow> jsval \<Rightarrow> string \<Rightarrow> NOTAM option" where
  "extractNOTAMFromData rt now data eventTimeSlice rawXml =
     do {
       series0 \<leftarrow> extractField data [''series'', ''event:series''];
       number0 \<leftarrow> extractField data [''number'', ''event:number''];
       year0 \<leftarrow> extractField data [''year'', ''event:year''];
       let series = or_default series0 [];
       let number = or_default number0 [];
       let year = or_default year0 [];
       let notamId = (if series \<noteq> [] \<and> number \<noteq> [] \<and> year \<noteq> []
                      then series @ number @ ''/'' @ year else ''UNKNOWN'');
       startField \<leftarrow> extractField data [''effectiveStart'', ''event:effectiveStart'', ''validityStart''];
       endField \<leftarrow> extractField data [''effectiveEnd'', ''event:effectiveEnd'', ''validityEnd''];
       dates \<leftarrow> validTime_dates rt eventTimeSlice (parseDate rt startField) (parseDate rt endField);
       location \<leftarrow> extractField data [''location'', ''event:location'', ''icaoLocation''];
       text \<leftarrow> extractField data [''text'', ''event:text'', ''notamText'', ''itemE''];
       qLine \<leftarrow> extractQLine data;
       purpose0 \<leftarrow> extractField data [''purpose'', ''event:purpose''];
       scope0 \<leftarrow> extractField data [''scope'', ''event:scope''];
       traffic0 \<leftarrow> extractField data [''traffic'', ''event:traffic''];
       Some \<lparr>notam_id = notamId,
             icao_location = or_default location ''ZZZZ'',
             effective_start = (case fst dates of None \<Rightarrow> now | Some d \<Rightarrow> d),
             effective_end = snd dates,
             schedule = None,
             notam_text = or_default text [],
             q_line = qLine,
             purpose = or_null purpose0,
             scope = or_null scope0,
             traffic_type = or_null traffic0,
             raw_message = Some rawXml\<rparr>
     }"

text \<open>
  \<open>parseAIXMMessage\<close>.  Every \<open>return null\<close> and the \<open>catch\<close> block give \<open>None\<close>.
\<close>

definition parseAIXMMessage :: "runtime \<Rightarrow> int \<Rightarrow> string \<Rightarrow> NOTAM option" where
  "parseAIXMMessage rt now xmlString =
     do {
       parsed \<leftarrow> xml_parse rt xmlString;
       message \<leftarrow> getprop_or parsed [''AIXMBasicMessage'', ''aixm:AIXMBasicMessage''];
       if \<not> truthy message then None
       else do {
         member \<leftarrow> getprop_or message [''hasMember'', ''aixm:hasMember''];
         if \<not> truthy member then None
         else do {
           event \<leftarrow> getprop_or member [''Event'', ''event:Event'', ''aixm:Event''];
           if \<not> truthy event then None
           else do {
             timeSlice \<leftarrow> getprop_or event [''timeSlice'', ''event:timeSlice'', ''aixm:timeSlice''];
             if \<not> truthy timeSlice then None
             else do {
               eventTimeSlice \<leftarrow> getprop_or timeSlice
                 [''EventTimeSlice'', ''event:EventTimeSlice'', ''aixm:EventTimeSlice''];
               if \<not> truthy eventTimeSlice then None
               else do {
                 textNOTAM \<leftarrow> getprop_or eventTimeSlice [''textNOTAM'', ''event:textNOTAM''];
                 notam \<leftarrow> (if textNOTAM = JUndefined \<or> textNOTAM = JNull then Some JUndefined
                            else getprop_or textNOTAM [''NOTAM'', ''event:NOTAM'']);
                 direct \<leftarrow> getprop_or eventTimeSlice [''NOTAM'', ''event:NOTAM''];
                 let notamData = (if truthy notam then notam
                                  else if truthy direct then direct else eventTimeSlice);
                 extractNOTAMFromData rt now notamData eventTimeSlice xmlString
               }
             }
           }
         }
       }
     }"

text \<open>The record under construction in \<open>parseTextNOTAM\<close> (a \<open>Partial<NOTAM>\<close>).\<close>

record PartialNOTAM =
  p_notam_id :: "string option"
  p_icao_location :: "string option"
  p_effective_start :: "int option"
  p_effective_end :: "int option"
  p_schedule :: "string option"
  p_notam_text :: string
  p_raw_message :: string

text \<open>The test \<^verbatim>\<open>/^[A-Z]\d+\/\d+/.test(line)\<close>.\<close>

definition matches_notam_id :: "string \<Rightarrow> bool" where
  "matches_notam_id line =
     (case line of
        [] \<Rightarrow> False
      | c # r \<Rightarrow>
          is_upper c \<and> takeWhile is_digit r \<noteq> [] \<and>
          (case dropWhile is_digit r of
             [] \<Rightarrow> False
           | sl # r' \<Rightarrow> sl = CHR ''/'' \<and> (case r' of [] \<Rightarrow> False | d # r'' \<Rightarrow> is_digit d)))"

text \<open>\<^verbatim>\<open>line.split(/\s+/)[0]\<close>: the characters before the first white space.\<close>

definition first_token :: "string \<Rightarrow> string" where
  "first_token line = takeWhile (\<lambda>c. \<not> is_space c) line"

text \<open>The body of the \<open>for\<close> loop over the lines.\<close>

definition text_line :: "runtime \<Rightarrow> int \<Rightarrow> PartialNOTAM \<Rightarrow> string \<Rightarrow> PartialNOTAM" where
  "text_line rt now notam line =
     (if startsWith line ''A)'' then
        notam\<lparr>p_icao_location := Some (substring (trim (drop 2 line)) 0 10)\<rparr>
      else if startsWith line ''B)'' then
        notam\<lparr>p_effective_start :=
          Some (case parseDate rt (Some (trim (drop 2 line))) of None \<Rightarrow> now | Some d \<Rightarrow> d)\<rparr>
      else if startsWith line ''C)'' then
        notam\<lparr>p_effective_end := parseDate rt (Some (trim (drop 2 line)))\<rparr>
      else if startsWith line ''D)'' then
        notam\<lparr>p_schedule := Some (trim (drop 2 line))\<rparr>
      else if startsWith line ''E)'' then
        notam\<lparr>p_notam_text := trim (drop 2 line)\<rparr>
      else if (p_notam_id notam = None \<or> p_notam_id notam = Some []) \<and> matches_notam_id line then
        notam\<lparr>p_notam_id := Some (first_token line)\<rparr>
      else notam)"

definition text_lines :: "string \<Rightarrow> string list" where
  "text_lines text = filter (\<lambda>l. length l > 0) (map trim (split_on (CHR 0x0A) text))"

definition parseTextNOTAM :: "runtime \<Rightarrow> int \<Rightarrow> string \<Rightarrow> NOTAM option" where
  "parseTextNOTAM rt now text =
     (let notam = foldl (text_line rt now)
                    \<lparr>p_notam_id = None, p_icao_location = None, p_effective_start = None,
                     p_effective_end = None, p_schedule = None,
                     p_notam_text = text, p_raw_message = text\<rparr>
                    (text_lines text)
      in case (p_notam_id notam, p_icao_location notam, p_effective_start notam) of
           (Some i, Some l, Some st) \<Rightarrow>
             if i = [] \<or> l = [] then None
             else Some \<lparr>notam_id = i, icao_location = l, effective_start = st,
                        effective_end = p_effective_end notam, schedule = p_schedule notam,
                        notam_text = p_notam_text notam, q_line = None, purpose = None,
                        scope = None, traffic_type = None,
                        raw_message = Some (p_raw_message notam)\<rparr>
         | _ \<Rightarrow> None)"

section \<open>Record store (src/models/notam.ts, migrations/001_create_notams.sql)\<close>

text \<open>A row of the \<open>notams\<close> table: the record's columns, the serial key and the two stamps.\<close>

record StoredNOTAM = NOTAM +
  row_id :: nat
  created_at :: int
  updated_at :: int

text \<open>
  The database as the model sees it: the rows of the table, the next value of the serial
  sequence, and what the connection will do on the coming calls of \<open>pool.query\<close>
  (\<open>Some e\<close>: that call throws \<open>e\<close> and changes nothing; \<open>None\<close>, or no entry: the
  statement runs).  Values are stored as given.
\<close>

record database =
  rows :: "StoredNOTAM list"
  next_id :: nat
  faults :: "jserror option list"

definition pool_query ::
  "(database \<Rightarrow> 'r \<times> database) \<Rightarrow> database \<Rightarrow> (jserror + 'r) \<times> database" where
  "pool_query statement db =
     (case faults db of
        [] \<Rightarrow> (case statement db of (r, db') \<Rightarrow> (Inr r, db'))
      | None # rest \<Rightarrow> (case statement (db\<lparr>faults := rest\<rparr>) of (r, db') \<Rightarrow> (Inr r, db'))
      | Some e # rest \<Rightarrow> (Inl e, db\<lparr>faults := rest\<rparr>))"

text \<open>
  The statement of \<open>create\<close>: \<^verbatim>\<open>INSERT ... ON CONFLICT (notam_id) DO UPDATE SET ...
  RETURNING *, (xmax = 0) AS inserted\<close>, run at database time \<open>now\<close>.  The serial
  sequence advances whether or not the insert meets a conflict.
\<close>

definition upsert_statement ::
  "int \<Rightarrow> NOTAM \<Rightarrow> database \<Rightarrow> (StoredNOTAM \<times> bool) \<times> database" where
  "upsert_statement now notam db =
     (case find (\<lambda>r. notam_id r = notam_id notam) (rows db) of
        None \<Rightarrow>
          (let row = \<lparr>notam_id = notam_id notam,
                      icao_location = icao_location notam,
                      effective_start = effective_start notam,
                      effective_end = effective_end notam,
                      schedule = schedule notam,
                      notam_text = notam_text notam,
                      q_line = q_line notam,
                      purpose = purpose notam,
                      scope = scope notam,
                      traffic_type = traffic_type notam,
                      raw_message = raw_message notam,
                      row_id = next_id db,
                      created_at = now,
                      updated_at = now\<rparr>
           in ((row, True), db\<lparr>rows := rows db @ [row], next_id := next_id db + 1\<rparr>))
      | Some old \<Rightarrow>
          (let row = old\<lparr>icao_location := icao_location notam,
                         effective_start := effective_start notam,
                         effective_end := effective_end notam,
                         schedule := schedule notam,
                         notam_text := notam_text notam,
                         q_line := q_line notam,
                         purpose := purpose notam,
                         scope := scope notam,
                         traffic_type := traffic_type notam,
                         raw_message := raw_message notam,
                         updated_at := now\<rparr>
           in ((row, False),
               db\<lparr>rows := map (\<lambda>r. if notam_id r = notam_id notam then row else r) (rows db),
                  next_id := next_id db + 1\<rparr>)))"

text \<open>\<open>create\<close>: the statement under \<open>withRetry\<close>; a thrown error is logged and rethrown.\<close>

definition create ::
  "RetryOptions \<Rightarrow> int \<Rightarrow> NOTAM \<Rightarrow> database \<Rightarrow> (jserror + StoredNOTAM \<times> bool) \<times> database" where
  "create opts now notam db =
     (case withRetry opts (pool_query (upsert_statement now notam)) db of
        (result, tr) \<Rightarrow> (result, world tr))"

record NOTAMQueryFilters =
  flt_location :: "string option"
  flt_start :: "int option"
  flt_end :: "int option"
  flt_purpose :: "string option"
  flt_scope :: "string option"
  flt_limit :: "nat option"
  flt_offset :: "nat option"

text \<open>
  A filter that is a string adds its condition when it is present and not empty; a date
  filter when it is present.  A comparison with a NULL column selects nothing.
\<close>

definition string_condition ::
  "string option \<Rightarrow> (StoredNOTAM \<Rightarrow> string option) \<Rightarrow> (StoredNOTAM \<Rightarrow> bool) list" where
  "string_condition f column =
     (case f of None \<Rightarrow> [] | Some v \<Rightarrow> if v = [] then [] else [\<lambda>r. column r = Some v])"

definition start_condition :: "int option \<Rightarrow> (StoredNOTAM \<Rightarrow> bool) list" where
  "start_condition f =
     (case f of
        None \<Rightarrow> []
      | Some d \<Rightarrow> [\<lambda>r. case effective_end r of None \<Rightarrow> True | Some e \<Rightarrow> e \<ge> d])"

definition end_condition :: "int option \<Rightarrow> (StoredNOTAM \<Rightarrow> bool) list" where
  "end_condition f = (case f of None \<Rightarrow> [] | Some d \<Rightarrow> [\<lambda>r. effective_start r \<le> d])"

text \<open>The \<open>conditions\<close> array of \<open>findByFilters\<close>, joined by \<open>AND\<close>.\<close>

definition findByFilters_conditions :: "NOTAMQueryFilters \<Rightarrow> (StoredNOTAM \<Rightarrow> bool) list" where
  "findByFilters_conditions filters =
     string_condition (flt_location filters) (\<lambda>r. Some (icao_location r)) @
     start_condition (flt_start filters) @
     end_condition (flt_end filters) @
     string_condition (flt_purpose filters) purpose @
     string_condition (flt_scope filters) scope"

text \<open>The \<open>conditions\<close> array of \<open>count\<close>.\<close>

definition count_conditions :: "NOTAMQueryFilters option \<Rightarrow> (StoredNOTAM \<Rightarrow> bool) list" where
  "count_conditions filters =
     (case filters of
        None \<Rightarrow> []
      | Some f \<Rightarrow>
          string_condition (flt_location f) (\<lambda>r. Some (icao_location r)) @
          start_condition (flt_start f) @
          end_condition (flt_end f))"

definition where_clause :: "(StoredNOTAM \<Rightarrow> bool) list \<Rightarrow> StoredNOTAM \<Rightarrow> bool" where
  "where_clause conditions r = list_all (\<lambda>c. c r) conditions"

text \<open>
  \<open>findByFilters\<close>: \<open>ORDER BY effective_start DESC LIMIT l OFFSET o\<close>; rows with equal
  start keep their table order here.
\<close>

definition findByFilters ::
  "NOTAMQueryFilters \<Rightarrow> database \<Rightarrow> (jserror + StoredNOTAM list) \<times> database" where
  "findByFilters filters db =
     (let lim = (case flt_limit filters of None \<Rightarrow> 100 | Some n \<Rightarrow> if n = 0 then 100 else n);
          off = (case flt_offset filters of None \<Rightarrow> 0 | Some n \<Rightarrow> n)
      in pool_query
           (\<lambda>d. (take lim (drop off
                    (sort_key (\<lambda>r. - effective_start r)
                       (filter (where_clause (findByFilters_conditions filters)) (rows d)))), d))
           db)"

definition count ::
  "NOTAMQueryFilters option \<Rightarrow> database \<Rightarrow> (jserror + nat) \<times> database" where
  "count filters db =
     pool_query (\<lambda>d. (length (filter (where_clause (count_conditions filters)) (rows d)), d)) db"

text \<open>
  \<open>deleteExpired\<close>: \<^verbatim>\<open>effective_end IS NOT NULL AND effective_end < NOW() - INTERVAL '1 day' * $1\<close>,
  with a day of 86400000 milliseconds; the result is the statement's row count.
\<close>

definition expired :: "int \<Rightarrow> int \<Rightarrow> StoredNOTAM \<Rightarrow> bool" where
  "expired now olderThanDays r =
     (case effective_end r of
        None \<Rightarrow> False
      | Some e \<Rightarrow> e < now - 86400000 * olderThanDays)"

definition deleteExpired :: "int \<Rightarrow> int \<Rightarrow> database \<Rightarrow> (jserror + nat) \<times> database" where
  "deleteExpired olderThanDays now db =
     pool_query
       (\<lambda>d. (length (filter (expired now olderThanDays) (rows d)),
              d\<lparr>rows := filter (\<lambda>r. \<not> expired now olderThanDays r) (rows d)\<rparr>))
       db"

section \<open>Ingestion (src/services/notam-ingestion.ts)\<close>

text \<open>
  A delivered message, as its three payload getters answer: the binary attachment turned
  into a string, the XML content, and the SDT container as JSON text.
\<close>

record Message =
  binaryAttachment :: "string option"
  xmlContent :: "string option"
  sdtContainer :: "string option"

definition messageBody :: "Message \<Rightarrow> string option" where
  "messageBody message =
     (let b1 = (case binaryAttachment message of None \<Rightarrow> None | Some p \<Rightarrow> if p = [] then None else Some p);
          b2 = (if b1 = None
                then (case xmlContent message of None \<Rightarrow> None | Some x \<Rightarrow> if x = [] then None else Some x)
                else b1);
          b3 = (if b2 = None
                then (case sdtContainer message of None \<Rightarrow> None | Some c \<Rightarrow> if c = [] then None else Some c)
                else b2)
      in b3)"

text \<open>The clock readings of one call of \<open>handleMessage\<close>, in the order they are taken.\<close>

record clock =
  t_admission :: int
  t_parse :: int
  t_store :: int
  t_failure :: int

text \<open>Format detection and parsing, the first half of \<open>processMessage\<close>.\<close>

definition parseMessage :: "runtime \<Rightarrow> int \<Rightarrow> string \<Rightarrow> NOTAM option" where
  "parseMessage rt now body =
     (if startsWith (trim body) ''<'' then parseAIXMMessage rt now body
      else parseTextNOTAM rt now body)"

definition processMessage ::
  "runtime \<Rightarrow> RetryOptions \<Rightarrow> clock \<Rightarrow> string \<Rightarrow> database \<Rightarrow> (jserror + unit) \<times> database" where
  "processMessage rt opts clk body db =
     (case parseMessage rt (t_parse clk) body of
        None \<Rightarrow> (Inr (), db)
      | Some notam \<Rightarrow>
          (case create opts (t_store clk) notam db of
             (Inl error, db') \<Rightarrow> (Inl error, db')
           | (Inr stored, db') \<Rightarrow> (Inr (), db')))"

record handled =
  acknowledged :: bool
  breaker :: CircuitBreakerState
  store :: database

definition handleMessage ::
  "CircuitBreaker \<Rightarrow> runtime \<Rightarrow> RetryOptions \<Rightarrow> clock \<Rightarrow> Message \<Rightarrow>
     CircuitBreakerState \<Rightarrow> database \<Rightarrow> handled" where
  "handleMessage cb rt opts clk message s db =
     (case isRequestAllowed cb (t_admission clk) s of
        (False, s1) \<Rightarrow> \<lparr>acknowledged = False, breaker = s1, store = db\<rparr>
      | (True, s1) \<Rightarrow>
          (case messageBody message of
             None \<Rightarrow> \<lparr>acknowledged = True, breaker = s1, store = db\<rparr>
           | Some body \<Rightarrow>
               (case processMessage rt opts clk body db of
                  (Inr u, db') \<Rightarrow>
                    \<lparr>acknowledged = True, breaker = recordSuccess s1, store = db'\<rparr>
                | (Inl error, db') \<Rightarrow>
                    \<lparr>acknowledged = False,
                     breaker = recordFailure cb (t_failure clk) error s1,
                     store = db'\<rparr>)))"

section \<open>Notions used in the statements\<close>

text \<open>The world after \<open>n\<close> invocations of an operation.\<close>

fun world_after :: "('w \<Rightarrow> (jserror + 'a) \<times> 'w) \<Rightarrow> nat \<Rightarrow> 'w \<Rightarrow> 'w" where
  "world_after operation 0 w = w"
| "world_after operation (Suc n) w = world_after operation n (snd (operation w))"

text \<open>The invocation in world \<open>w\<close> throws an error that the options classify as retriable.\<close>

definition fails_retriably ::
  "RetryOptions \<Rightarrow> ('w \<Rightarrow> (jserror + 'a) \<times> 'w) \<Rightarrow> 'w \<Rightarrow> bool" where
  "fails_retriably opts operation w =
     (case fst (operation w) of Inl e \<Rightarrow> isRetriable opts e | Inr r \<Rightarrow> False)"

text \<open>
  A section of the parsed tree: the value under the first candidate key that holds a
  truthy value.  There is none when every candidate key is absent or holds a falsy value.
\<close>

definition section_of :: "jsval \<Rightarrow> string list \<Rightarrow> jsval option" where
  "section_of v keys =
     (case getprop_or v keys of
        None \<Rightarrow> None
      | Some x \<Rightarrow> if truthy x then Some x else None)"

text \<open>The chain message, member, event, time slice, event time slice.\<close>

definition event_time_slice_of :: "jsval \<Rightarrow> jsval option" where
  "event_time_slice_of parsed =
     do {
       message \<leftarrow> section_of parsed [''AIXMBasicMessage'', ''aixm:AIXMBasicMessage''];
       member \<leftarrow> section_of message [''hasMember'', ''aixm:hasMember''];
       event \<leftarrow> section_of member [''Event'', ''event:Event'', ''aixm:Event''];
       timeSlice \<leftarrow> section_of event [''timeSlice'', ''event:timeSlice'', ''aixm:timeSlice''];
       section_of timeSlice [''EventTimeSlice'', ''event:EventTimeSlice'', ''aixm:EventTimeSlice'']
     }"

text \<open>
  The element the notice fields are read from: the \<open>NOTAM\<close> element of the
  \<open>textNOTAM\<close> section when there is one, else the \<open>NOTAM\<close> element of the event
  time slice, else the event time slice itself.
\<close>

definition member_or_undefined :: "jsval \<Rightarrow> string list \<Rightarrow> jsval" where
  "member_or_undefined v keys = (case getprop_or v keys of None \<Rightarrow> JUndefined | Some x \<Rightarrow> x)"

definition notam_data_of :: "jsval \<Rightarrow> jsval" where
  "notam_data_of eventTimeSlice =
     (let textNOTAM = member_or_undefined eventTimeSlice [''textNOTAM'', ''event:textNOTAM''];
          notam = (if textNOTAM = JUndefined \<or> textNOTAM = JNull then JUndefined
                   else member_or_undefined textNOTAM [''NOTAM'', ''event:NOTAM'']);
          direct = member_or_undefined eventTimeSlice [''NOTAM'', ''event:NOTAM'']
      in if truthy notam then notam else if truthy direct then direct else eventTimeSlice)"

text \<open>
  No object anywhere in the value has a member of its own named \<open>toString\<close>: every
  conversion of the value, or of a part of it, to a string succeeds.
\<close>

fun no_toString :: "jsval \<Rightarrow> bool" where
  "no_toString (JObj kvs) =
     (map_of kvs ''toString'' = None \<and> list_all no_toString (map snd kvs))"
| "no_toString (JArr vs) = list_all no_toString vs"
| "no_toString v = True"

text \<open>None of the keys is a member of the value.\<close>

definition absent :: "jsval \<Rightarrow> string list \<Rightarrow> bool" where
  "absent v keys = list_all (\<lambda>k. getprop v k = Some JUndefined) keys"

text \<open>The text path: a usable identifier has been assigned; the lines that set the location.\<close>

definition id_assigned :: "PartialNOTAM \<Rightarrow> bool" where
  "id_assigned p = (p_notam_id p \<noteq> None \<and> p_notam_id p \<noteq> Some [])"

definition is_location_line :: "string \<Rightarrow> bool" where
  "is_location_line l = startsWith l ''A)''"

definition is_start_line :: "string \<Rightarrow> bool" where
  "is_start_line l = startsWith l ''B)''"

definition location_lines :: "string list \<Rightarrow> string list" where
  "location_lines ls = filter is_location_line ls"


section \<open>Sample inputs\<close>

text \<open>Operations as in the retry tests: one that succeeds, two that always throw.\<close>

definition op_success :: "nat \<Rightarrow> (jserror + string) \<times> nat" where
  "op_success calls = (Inr ''success'', Suc calls)"

definition op_connection_lost :: "nat \<Rightarrow> (jserror + string) \<times> nat" where
  "op_connection_lost calls =
     (Inl (ThrownObject None (Some ''Connection terminated unexpectedly'')), Suc calls)"

definition op_syntax_error :: "nat \<Rightarrow> (jserror + string) \<times> nat" where
  "op_syntax_error calls = (Inl (ThrownObject None (Some ''syntax error'')), Suc calls)"

definition econnreset :: jserror where
  "econnreset = ThrownObject None (Some ''ECONNRESET'')"

definition unique_violation :: jserror where
  "unique_violation = ThrownObject (Some ''23505'') (Some ''unique_violation'')"

text \<open>A runtime whose \<open>Date\<close> constructor rejects every string.\<close>

definition no_date :: "string \<Rightarrow> int option" where
  "no_date s = None"

definition no_xml :: "string \<Rightarrow> jsval option" where
  "no_xml s = None"

definition text_runtime :: runtime where
  "text_runtime = \<lparr>xml_parse = no_xml, date_parse = no_date\<rparr>"

text \<open>The text notice of the parser tests, and one whose \<open>A)\<close> line is empty.\<close>

definition sample_text :: string where
  "sample_text =
     ''A2/1234\<newline>A) KJFK\<newline>B) 2501151400\<newline>C) 2501202359\<newline>E) RWY 04L/22R CLSD''"

definition empty_location_text :: string where
  "empty_location_text = ''A1/23\<newline>A)\<newline>B) 2501151400''"

text \<open>
  A parsed tree whose chain reaches an event time slice that carries the notice fields
  itself: no \<open>textNOTAM\<close> section, no location, no dates.
\<close>

definition bare_event_time_slice :: jsval where
  "bare_event_time_slice =
     JObj [(''event:series'', JStr ''A''), (''event:number'', JNum 4146),
           (''event:year'', JNum 2025), (''event:text'', JStr ''EXER WILL TAKE PLACE'')]"

definition bare_tree :: jsval where
  "bare_tree =
     JObj [(''AIXMBasicMessage'',
       JObj [(''hasMember'',
         JObj [(''event:Event'',
           JObj [(''event:timeSlice'',
             JObj [(''event:EventTimeSlice'', bare_event_time_slice)])])])])]"

definition bare_xml :: "string \<Rightarrow> jsval option" where
  "bare_xml s = Some bare_tree"

definition bare_runtime :: runtime where
  "bare_runtime = \<lparr>xml_parse = bare_xml, date_parse = no_date\<rparr>"

text \<open>
  A tree whose chain resolves and whose location element has a child element named
  \<open>toString\<close>.
\<close>

definition toString_event_time_slice :: jsval where
  "toString_event_time_slice =
     JObj [(''event:series'', JStr ''A''), (''event:number'', JNum 4146),
           (''event:year'', JNum 2025),
           (''event:location'', JObj [(''toString'', JStr ''MUXX'')])]"

definition toString_tree :: jsval where
  "toString_tree =
     JObj [(''AIXMBasicMessage'',
       JObj [(''hasMember'',
         JObj [(''event:Event'',
           JObj [(''event:timeSlice'',
             JObj [(''event:EventTimeSlice'', toString_event_time_slice)])])])])]"

definition toString_xml :: "string \<Rightarrow> jsval option" where
  "toString_xml s = Some toString_tree"

definition toString_runtime :: runtime where
  "toString_runtime = \<lparr>xml_parse = toString_xml, date_parse = no_date\<rparr>"

text \<open>The tree of the parser test on \<^verbatim>\<open><invalid>xml</invalid>\<close>: no message section.\<close>

definition invalid_tree :: jsval where
  "invalid_tree = JObj [(''invalid'', JStr ''xml'')]"

definition invalid_xml :: "string \<Rightarrow> jsval option" where
  "invalid_xml s = Some invalid_tree"

definition invalid_runtime :: runtime where
  "invalid_runtime = \<lparr>xml_parse = invalid_xml, date_parse = no_date\<rparr>"



definition stored_row :: "nat \<Rightarrow> string \<Rightarrow> string \<Rightarrow> int option \<Rightarrow> StoredNOTAM" where
  "stored_row i ident purp ending =
     \<lparr>notam_id = ident, icao_location = ''KJFK'',
      effective_start = 1000, effective_end = ending,
      schedule = None, notam_text = ''TEXT'', q_line = None,
      purpose = Some purp, scope = Some ''A'', traffic_type = Some ''I'',
      raw_message = None, row_id = i, created_at = 0, updated_at = 0\<rparr>"

definition empty_db :: database where
  "empty_db = \<lparr>rows = [], next_id = 1, faults = []\<rparr>"

definition sample_db :: database where
  "sample_db =
     \<lparr>rows = [stored_row 1 ''A1/2020'' ''N'' (Some 5000),
              stored_row 2 ''A2/2020'' ''B'' None,
              stored_row 3 ''A3/2020'' ''B'' (Some 900000000)],
      next_id = 4, faults = []\<rparr>"






definition pruned_db :: database where
  "pruned_db =
     \<lparr>rows = [stored_row 2 ''A2/2020'' ''B'' None,
              stored_row 3 ''A3/2020'' ''B'' (Some 900000000)],
      next_id = 4, faults = []\<rparr>"

definition purpose_filter :: "string \<Rightarrow> NOTAMQueryFilters" where
  "purpose_filter p =
     \<lparr>flt_location = None, flt_start = None, flt_end = None, flt_purpose = Some p,
      flt_scope = None, flt_limit = None, flt_offset = None\<rparr>"

definition sample_clock :: clock where
  "sample_clock = \<lparr>t_admission = 70000, t_parse = 70001, t_store = 70002, t_failure = 70003\<rparr>"

definition text_message :: "string \<Rightarrow> Message" where
  "text_message body = \<lparr>binaryAttachment = Some body, xmlContent = None, sdtContainer = None\<rparr>"

definition closed_after_two :: CircuitBreakerState where
  "closed_after_two = \<lparr>failures = 2, lastFailure = Some 50000, isOpen = False\<rparr>"

definition open_at_50000 :: CircuitBreakerState where
  "open_at_50000 = \<lparr>failures = 5, lastFailure = Some 50000, isOpen = True\<rparr>"

section \<open>Properties of the circuit breaker\<close>

lemma recordFailure_qualifying:
  "cb_isConnectionError cb e \<Longrightarrow>
     failures (recordFailure cb now e s) = failures s + 1 \<and>
     lastFailure (recordFailure cb now e s) = Some now \<and>
     isOpen (recordFailure cb now e s) = (isOpen s \<or> threshold cb \<le> int (failures s) + 1)"
  by (auto simp: recordFailure_def cb_open_def Let_def)

lemma recordFailure_non_qualifying:
  "\<not> cb_isConnectionError cb e \<Longrightarrow> recordFailure cb now e s = s"
  by (simp add: recordFailure_def)

lemma recordFailures_qualifying:
  "\<forall>ne \<in> set es. cb_isConnectionError cb (snd ne) \<Longrightarrow>
     failures (recordFailures cb es s) = failures s + length es \<and>
     isOpen (recordFailures cb es s) =
       (isOpen s \<or> (es \<noteq> [] \<and> threshold cb \<le> int (failures s + length es)))"
proof (induction es arbitrary: s)
  case Nil
  then show ?case by simp
next
  case (Cons ne es)
  have q: "cb_isConnectionError cb (snd ne)" using Cons.prems by simp
  have others: "\<forall>ne \<in> set es. cb_isConnectionError cb (snd ne)" using Cons.prems by simp
  note step = recordFailure_qualifying [OF q, of "fst ne" s]
  note ih = Cons.IH [OF others, of "recordFailure cb (fst ne) (snd ne) s"]
  show ?case
    using step ih by (cases es) auto
qed

lemma recordFailures_non_qualifying:
  "\<forall>ne \<in> set es. \<not> cb_isConnectionError cb (snd ne) \<Longrightarrow> recordFailures cb es s = s"
  by (induction es arbitrary: s) (simp_all add: recordFailure_non_qualifying)

lemma isConnectionError_econnreset: "isConnectionError econnreset"
  by code_simp

lemma isConnectionError_unique_violation: "\<not> isConnectionError unique_violation"
  by code_simp

text \<open>
  C4.  From the initial state (closed, no failures) and for a threshold of at least one:
  recording exactly \<open>threshold\<close> qualifying failures opens the breaker, recording
  \<open>threshold - 1\<close> of them leaves it closed, and recording non-qualifying failures, in
  any state and any number, changes neither the failure counter nor the open flag.
\<close>

theorem breaker_opens_at_threshold:
  assumes "0 < threshold cb"
    and "\<forall>ne \<in> set es. cb_isConnectionError cb (snd ne)"
    and "int (length es) = threshold cb"
    and "\<forall>ne \<in> set es'. cb_isConnectionError cb (snd ne)"
    and "int (length es') = threshold cb - 1"
    and "\<forall>ne \<in> set ns. \<not> cb_isConnectionError cb (snd ne)"
  shows "isOpen (recordFailures cb es initial_state) \<and>
         \<not> isOpen (recordFailures cb es' initial_state) \<and>
         failures (recordFailures cb ns s) = failures s \<and>
         isOpen (recordFailures cb ns s) = isOpen s"
proof -
  from assms(1,3) have "es \<noteq> []" by auto
  with recordFailures_qualifying [OF assms(2), of initial_state] assms(3)
  have opened: "isOpen (recordFailures cb es initial_state)"
    by (simp add: initial_state_def)
  from recordFailures_qualifying [OF assms(4), of initial_state] assms(5)
  have closed: "\<not> isOpen (recordFailures cb es' initial_state)"
    by (simp add: initial_state_def)
  have "recordFailures cb ns s = s"
    using assms(6) by (rule recordFailures_non_qualifying)
  with opened closed show ?thesis by simp
qed

theorem breaker_opens_at_threshold_witness:
  "isOpen (recordFailures (default_breaker\<lparr>threshold := 2\<rparr>)
             [(10, econnreset), (20, econnreset)] initial_state) \<and>
   \<not> isOpen (recordFailures (default_breaker\<lparr>threshold := 2\<rparr>) [(10, econnreset)] initial_state) \<and>
   failures (recordFailures (default_breaker\<lparr>threshold := 2\<rparr>)
               [(30, unique_violation), (40, ThrownNull)] closed_after_two) = failures closed_after_two \<and>
   isOpen (recordFailures (default_breaker\<lparr>threshold := 2\<rparr>)
               [(30, unique_violation), (40, ThrownNull)] closed_after_two) = isOpen closed_after_two"
  by (rule breaker_opens_at_threshold)
     (simp_all add: default_breaker_def isConnectionError_econnreset
        isConnectionError_unique_violation)

lemma isRequestAllowed_open:
  "isOpen s \<Longrightarrow> lastFailure s = Some t \<Longrightarrow>
     isRequestAllowed cb now s =
       (if now - t > timeout cb then (True, s\<lparr>isOpen := False, failures := 0\<rparr>) else (False, s))"
  by (simp add: isRequestAllowed_def cb_reset_def)

lemma recordFailure_keeps_open: "isOpen s \<Longrightarrow> isOpen (recordFailure cb now e s)"
  by (simp add: recordFailure_def cb_open_def Let_def)

text \<open>
  C5.  While the breaker is open, the admission check answers false and changes nothing
  as long as the time since the last failure is within the timeout; once that time
  exceeds the timeout it resets the breaker to closed with the counter at zero and
  answers true.  Recording a success zeroes the counter and leaves an open breaker
  open, and so does recording a failure: the timeout is the only way back to closed.
\<close>

theorem open_breaker_closes_only_by_timeout:
  assumes "isOpen s" and "lastFailure s = Some t"
    and "early - t \<le> timeout cb" and "timeout cb < late - t"
  shows "isRequestAllowed cb early s = (False, s) \<and>
         isRequestAllowed cb late s = (True, s\<lparr>isOpen := False, failures := 0\<rparr>) \<and>
         failures (recordSuccess s) = 0 \<and>
         isOpen (recordSuccess s) \<and>
         isOpen (recordFailure cb now e s)"
  using assms
  by (simp add: isRequestAllowed_open recordSuccess_def recordFailure_keeps_open)

theorem open_breaker_closes_only_by_timeout_witness:
  "isRequestAllowed default_breaker 110000 open_at_50000 = (False, open_at_50000) \<and>
   isRequestAllowed default_breaker 110001 open_at_50000 =
     (True, open_at_50000\<lparr>isOpen := False, failures := 0\<rparr>) \<and>
   failures (recordSuccess open_at_50000) = 0 \<and>
   isOpen (recordSuccess open_at_50000) \<and>
   isOpen (recordFailure default_breaker 120000 econnreset open_at_50000)"
  by (rule open_breaker_closes_only_by_timeout [where t = 50000])
     (simp_all add: open_at_50000_def default_breaker_def)

section \<open>Properties of the retry loop\<close>

lemma withRetry_loop_exhausted:
  "int attempt + int k = maxRetries opts \<Longrightarrow>
   \<forall>i \<le> k. fails_retriably opts operation (world_after operation i (world tr)) \<Longrightarrow>
     withRetry_loop opts operation attempt lastError tr =
       (fst (operation (world_after operation k (world tr))),
        \<lparr>world = world_after operation (Suc k) (world tr),
         invocations = invocations tr + Suc k,
         sleeps = sleeps tr @
           map (\<lambda>i. calculateBackoff i (backoffBase opts) (maxBackoff opts)) [attempt ..< attempt + k]\<rparr>)"
proof (induction k arbitrary: attempt lastError tr)
  case 0
  from "0.prems"(2) obtain e where e: "fst (operation (world tr)) = Inl e"
    by (auto simp: fails_retriably_def split: sum.splits)
  with "0.prems"(1) show ?case
    by simp
next
  case (Suc k)
  from Suc.prems(2) have "fails_retriably opts operation (world_after operation 0 (world tr))"
    by blast
  then obtain e where e: "fst (operation (world tr)) = Inl e" and r: "isRetriable opts e"
    by (auto simp: fails_retriably_def split: sum.splits)
  let ?tr = "tr\<lparr>world := snd (operation (world tr)),
                 invocations := invocations tr + 1,
                 sleeps := sleeps tr @
                   [calculateBackoff attempt (backoffBase opts) (maxBackoff opts)]\<rparr>"
  have notlast: "int attempt \<noteq> maxRetries opts" "int attempt \<le> maxRetries opts"
    using Suc.prems(1) by auto
  have unroll: "withRetry_loop opts operation attempt lastError tr =
                withRetry_loop opts operation (attempt + 1) e ?tr"
    using e r notlast by simp
  have len: "int (attempt + 1) + int k = maxRetries opts" using Suc.prems(1) by simp
  have later: "\<forall>i \<le> k. fails_retriably opts operation (world_after operation i (world ?tr))"
  proof (intro allI impI)
    fix i assume "i \<le> k"
    then have "Suc i \<le> Suc k" by simp
    with Suc.prems(2) have "fails_retriably opts operation (world_after operation (Suc i) (world tr))"
      by blast
    then show "fails_retriably opts operation (world_after operation i (world ?tr))"
      by simp
  qed
  have upt: "[attempt ..< attempt + Suc k] = attempt # [attempt + 1 ..< attempt + 1 + k]"
    by (simp add: upt_conv_Cons)
  show ?case
    unfolding unroll Suc.IH [OF len later] upt
    by simp
qed

text \<open>
  C6.  With a maximum of at least zero retries: when the first attempt succeeds the
  operation is invoked once and nothing is slept; when every attempt throws a retriable
  error the operation is invoked \<open>maxRetries + 1\<close> times, the delay after attempt \<open>i\<close>
  is \<open>min (base * 2 ^ i) cap\<close>, and the error of the last attempt is rethrown as it is;
  when the first attempt throws a non-retriable error it is rethrown after that one
  invocation.
\<close>

theorem withRetry_attempts:
  assumes "0 \<le> maxRetries opts"
    and "fst (succeeding w_ok) = Inr v"
    and "\<forall>i \<le> nat (maxRetries opts). fails_retriably opts failing (world_after failing i w_fail)"
    and "fst (broken w_bad) = Inl e" and "\<not> isRetriable opts e"
  shows "withRetry opts succeeding w_ok =
           (Inr v, \<lparr>world = snd (succeeding w_ok), invocations = 1, sleeps = []\<rparr>) \<and>
         withRetry opts failing w_fail =
           (fst (failing (world_after failing (nat (maxRetries opts)) w_fail)),
            \<lparr>world = world_after failing (nat (maxRetries opts) + 1) w_fail,
             invocations = nat (maxRetries opts) + 1,
             sleeps = map (\<lambda>i. min (backoffBase opts * 2 ^ i) (maxBackoff opts))
                        [0 ..< nat (maxRetries opts)]\<rparr>) \<and>
         (\<exists>e'. fst (failing (world_after failing (nat (maxRetries opts)) w_fail)) = Inl e') \<and>
         withRetry opts broken w_bad =
           (Inl e, \<lparr>world = snd (broken w_bad), invocations = 1, sleeps = []\<rparr>)"
proof -
  have first: "withRetry opts succeeding w_ok =
                 (Inr v, \<lparr>world = snd (succeeding w_ok), invocations = 1, sleeps = []\<rparr>)"
    using assms(1,2) by (simp add: withRetry_def)
  have third: "withRetry opts broken w_bad =
                 (Inl e, \<lparr>world = snd (broken w_bad), invocations = 1, sleeps = []\<rparr>)"
    using assms(1,4,5) by (simp add: withRetry_def)
  have len: "int 0 + int (nat (maxRetries opts)) = maxRetries opts"
    using assms(1) by simp
  have second: "withRetry opts failing w_fail =
           (fst (failing (world_after failing (nat (maxRetries opts)) w_fail)),
            \<lparr>world = world_after failing (nat (maxRetries opts) + 1) w_fail,
             invocations = nat (maxRetries opts) + 1,
             sleeps = map (\<lambda>i. min (backoffBase opts * 2 ^ i) (maxBackoff opts))
                        [0 ..< nat (maxRetries opts)]\<rparr>)"
    unfolding withRetry_def
    using withRetry_loop_exhausted [OF len, of failing
        "\<lparr>world = w_fail, invocations = 0, sleeps = []\<rparr>" ThrownUndefined] assms(3)
    by (simp add: calculateBackoff_def)
  from assms(3) have "fails_retriably opts failing (world_after failing (nat (maxRetries opts)) w_fail)"
    by blast
  then have last: "\<exists>e'. fst (failing (world_after failing (nat (maxRetries opts)) w_fail)) = Inl e'"
    by (auto simp: fails_retriably_def split: sum.splits)
  from first second last third show ?thesis by blast
qed

lemma connection_lost_retriable:
  "isRetriableDatabaseError (ThrownObject None (Some ''Connection terminated unexpectedly''))"
  by code_simp

lemma syntax_error_not_retriable:
  "\<not> isRetriableDatabaseError (ThrownObject None (Some ''syntax error''))"
  by code_simp

lemma world_after_connection_lost: "world_after op_connection_lost n w = w + n"
  by (induction n arbitrary: w) (simp_all add: op_connection_lost_def)

theorem withRetry_attempts_witness:
  "withRetry (default_retry\<lparr>maxRetries := 2\<rparr>) op_success 0 =
     (Inr ''success'', \<lparr>world = 1, invocations = 1, sleeps = []\<rparr>) \<and>
   withRetry (default_retry\<lparr>maxRetries := 2\<rparr>) op_connection_lost 0 =
     (Inl (ThrownObject None (Some ''Connection terminated unexpectedly'')),
      \<lparr>world = 3, invocations = 3, sleeps = [1000, 2000]\<rparr>) \<and>
   withRetry (default_retry\<lparr>maxRetries := 2\<rparr>) op_syntax_error 0 =
     (Inl (ThrownObject None (Some ''syntax error'')),
      \<lparr>world = 1, invocations = 1, sleeps = []\<rparr>)"
proof -
  let ?opts = "default_retry\<lparr>maxRetries := 2\<rparr>"
  have h1: "0 \<le> maxRetries ?opts" by (simp add: default_retry_def)
  have h2: "fst (op_success 0) = Inr ''success''" by (simp add: op_success_def)
  have h3: "\<forall>i \<le> nat (maxRetries ?opts).
              fails_retriably ?opts op_connection_lost (world_after op_connection_lost i 0)"
    by (simp add: fails_retriably_def op_connection_lost_def default_retry_def
          connection_lost_retriable del: isRetriableDatabaseError.simps)
  have h4: "fst (op_syntax_error 0) = Inl (ThrownObject None (Some ''syntax error''))"
    by (simp add: op_syntax_error_def)
  have h5: "\<not> isRetriable ?opts (ThrownObject None (Some ''syntax error''))"
    by (simp add: default_retry_def syntax_error_not_retriable
          del: isRetriableDatabaseError.simps)
  have two: "nat (maxRetries ?opts) = 2" by (simp add: default_retry_def)
  have upt2: "[0 ..< 2] = [0, Suc 0]" by (simp add: upt_conv_Cons)
  show ?thesis
    using withRetry_attempts [where opts = "?opts" and succeeding = op_success and w_ok = 0
        and failing = op_connection_lost and w_fail = 0 and broken = op_syntax_error and w_bad = 0,
        OF h1 h2 h3 h4 h5]
    by (simp add: two upt2 world_after_connection_lost op_success_def op_connection_lost_def
          op_syntax_error_def default_retry_def)
qed

section \<open>Properties of the text parser\<close>

lemma startsWith_tag: "startsWith l [a, b] \<longleftrightarrow> (\<exists>r. l = a # b # r)"
  by (cases l; simp add: startsWith_def; cases "tl l"; auto)

lemma is_upper_not_space: "is_upper c \<Longrightarrow> \<not> is_space c"
  by (auto simp: is_upper_def is_space_def)

lemma matches_first_token: "matches_notam_id l \<Longrightarrow> first_token l \<noteq> []"
  by (cases l) (auto simp: matches_notam_id_def first_token_def is_upper_not_space)

lemma matches_not_tag: "matches_notam_id l \<Longrightarrow> \<not> startsWith l [a, CHR '')'']"
  by (auto simp: matches_notam_id_def startsWith_tag is_digit_def split: list.splits)

lemma text_line_start:
  "p_effective_start (text_line rt now p l) \<noteq> None \<longleftrightarrow>
     p_effective_start p \<noteq> None \<or> is_start_line l"
  by (auto simp: text_line_def startsWith_tag is_start_line_def)

lemma text_line_location:
  "p_icao_location (text_line rt now p l) =
     (if is_location_line l then Some (substring (trim (drop 2 l)) 0 10) else p_icao_location p)"
  by (auto simp: text_line_def startsWith_tag is_location_line_def)

lemma text_line_id:
  "id_assigned (text_line rt now p l) \<longleftrightarrow> id_assigned p \<or> matches_notam_id l"
  using matches_first_token [of l] matches_not_tag [of l]
  by (auto simp: text_line_def id_assigned_def)

lemma foldl_start:
  "p_effective_start (foldl (text_line rt now) p ls) \<noteq> None \<longleftrightarrow>
     p_effective_start p \<noteq> None \<or> list_ex is_start_line ls"
proof (induction ls arbitrary: p)
  case Nil show ?case by simp
next
  case (Cons l ls)
  show ?case using Cons.IH [of "text_line rt now p l"] text_line_start [of rt now p l]
    by auto
qed

lemma foldl_id:
  "id_assigned (foldl (text_line rt now) p ls) \<longleftrightarrow>
     id_assigned p \<or> list_ex matches_notam_id ls"
proof (induction ls arbitrary: p)
  case Nil show ?case by simp
next
  case (Cons l ls)
  show ?case using Cons.IH [of "text_line rt now p l"] text_line_id [of rt now p l]
    by auto
qed

lemma foldl_location:
  "p_icao_location (foldl (text_line rt now) p ls) =
     (if location_lines ls = [] then p_icao_location p
      else Some (substring (trim (drop 2 (last (location_lines ls)))) 0 10))"
proof (induction ls arbitrary: p)
  case Nil show ?case by (simp add: location_lines_def)
next
  case (Cons l ls)
  show ?case using Cons.IH [of "text_line rt now p l"] text_line_location [of rt now p l]
    by (auto simp: location_lines_def)
qed

lemma parseTextNOTAM_result:
  "parseTextNOTAM rt now text \<noteq> None \<longleftrightarrow>
     (let p = foldl (text_line rt now)
                \<lparr>p_notam_id = None, p_icao_location = None, p_effective_start = None,
                 p_effective_end = None, p_schedule = None,
                 p_notam_text = text, p_raw_message = text\<rparr>
                (text_lines text)
      in id_assigned p \<and> p_icao_location p \<noteq> None \<and> p_icao_location p \<noteq> Some [] \<and>
         p_effective_start p \<noteq> None)"
  by (auto simp: parseTextNOTAM_def Let_def id_assigned_def split: option.splits)

lemma substring_empty: "substring s 0 10 = [] \<longleftrightarrow> s = []"
  by (simp add: substring_def)

text \<open>
  C9 (as amended).  The text path returns a record if and only if, among the trimmed
  non-empty lines, there is an identifier line, there is a \<open>B)\<close> line, and there is an
  \<open>A)\<close> line of which the last one carries a non-empty location after the tag.
\<close>

theorem parseTextNOTAM_record_iff:
  "parseTextNOTAM rt now text \<noteq> None \<longleftrightarrow>
     list_ex matches_notam_id (text_lines text) \<and>
     list_ex is_start_line (text_lines text) \<and>
     location_lines (text_lines text) \<noteq> [] \<and>
     trim (drop 2 (last (location_lines (text_lines text)))) \<noteq> []"
  unfolding parseTextNOTAM_result Let_def foldl_id foldl_start foldl_location
  by (auto simp: id_assigned_def substring_empty)

theorem parseTextNOTAM_record_iff_witness:
  "list_ex matches_notam_id (text_lines sample_text) \<and>
   list_ex is_start_line (text_lines sample_text) \<and>
   location_lines (text_lines sample_text) \<noteq> [] \<and>
   trim (drop 2 (last (location_lines (text_lines sample_text)))) \<noteq> [] \<and>
   parseTextNOTAM text_runtime 0 sample_text \<noteq> None"
proof -
  have lines: "list_ex matches_notam_id (text_lines sample_text) \<and>
     list_ex is_start_line (text_lines sample_text) \<and>
     location_lines (text_lines sample_text) \<noteq> [] \<and>
     trim (drop 2 (last (location_lines (text_lines sample_text)))) \<noteq> []"
    by code_simp
  with parseTextNOTAM_record_iff [of text_runtime 0 sample_text] show ?thesis
    by blast
qed

theorem empty_location_line_counterexample:
  "list_ex matches_notam_id (text_lines empty_location_text) \<and>
   list_ex is_location_line (text_lines empty_location_text) \<and>
   list_ex is_start_line (text_lines empty_location_text) \<and>
   parseTextNOTAM text_runtime 0 empty_location_text = None"
  by code_simp

section \<open>Properties of the structured path\<close>

lemma getprop_defined: "v \<noteq> JUndefined \<Longrightarrow> v \<noteq> JNull \<Longrightarrow> \<exists>x. getprop v k = Some x"
  by (cases v) simp_all

lemma getprop_or_defined:
  "v \<noteq> JUndefined \<Longrightarrow> v \<noteq> JNull \<Longrightarrow> \<exists>x. getprop_or v ks = Some x"
proof (induction v ks rule: getprop_or.induct)
  case (1 v) show ?case by simp
next
  case (2 v k) then show ?case by (simp add: getprop_defined)
next
  case (3 v k k' ks)
  from getprop_defined [OF "3.prems", of k] obtain x where x: "getprop v k = Some x" by blast
  show ?case
  proof (cases "truthy x")
    case True with x show ?thesis by simp
  next
    case False
    with "3.IH" [OF x False "3.prems"] x show ?thesis by simp
  qed
qed

lemma truthy_defined: "truthy v \<Longrightarrow> v \<noteq> JUndefined \<and> v \<noteq> JNull"
  by (cases v) simp_all

lemma those_defined:
  "\<forall>x \<in> set xs. \<exists>y. f x = Some y \<Longrightarrow> \<exists>ys. those (map f xs) = Some ys"
proof (induction xs)
  case Nil show ?case by simp
next
  case (Cons x xs)
  then obtain y ys where "f x = Some y" "those (map f xs) = Some ys" by auto
  then show ?case by simp
qed

lemma js_String_defined: "no_toString v \<Longrightarrow> \<exists>s. js_String v = Some s"
proof (induction v)
  case (JArr vs)
  have "\<forall>x \<in> set vs. \<exists>y. (case x of JUndefined \<Rightarrow> Some [] | JNull \<Rightarrow> Some []
                                 | _ \<Rightarrow> js_String x) = Some y"
  proof
    fix x assume x: "x \<in> set vs"
    with JArr.prems have "no_toString x" by (simp add: list_all_iff)
    with JArr.IH [OF x] obtain y where "js_String x = Some y" by blast
    then show "\<exists>y. (case x of JUndefined \<Rightarrow> Some [] | JNull \<Rightarrow> Some []
                       | _ \<Rightarrow> js_String x) = Some y"
      by (cases x) auto
  qed
  from those_defined [OF this] show ?case by auto
qed simp_all

lemma no_toString_getprop: "no_toString v \<Longrightarrow> getprop v k = Some x \<Longrightarrow> no_toString x"
proof (cases v)
  case (JObj kvs)
  assume n: "no_toString v" and g: "getprop v k = Some x"
  show ?thesis
  proof (cases "map_of kvs k")
    case None with g JObj show ?thesis by auto
  next
    case (Some y)
    then have "(k, y) \<in> set kvs" by (rule map_of_SomeD)
    then have "y \<in> set (map snd kvs)" by force
    with n JObj have "no_toString y" by (auto simp: list_all_iff)
    with g JObj Some show ?thesis by auto
  qed
qed auto

lemma no_toString_getprop_or:
  "no_toString v \<Longrightarrow> getprop_or v ks = Some x \<Longrightarrow> no_toString x"
proof (induction v ks rule: getprop_or.induct)
  case (1 v) then show ?case by auto
next
  case (2 v k) then show ?case by (auto dest: no_toString_getprop)
next
  case (3 v k k' ks)
  from "3.prems"(2) obtain y where y: "getprop v k = Some y"
    by (auto split: option.splits)
  show ?case
  proof (cases "truthy y")
    case True
    with y "3.prems" show ?thesis by (auto dest: no_toString_getprop)
  next
    case False
    with y "3.prems"(2) have "getprop_or v (k' # ks) = Some x" by simp
    from "3.IH" [OF y False "3.prems"(1) this] show ?thesis .
  qed
qed

lemma no_toString_nested_field: "no_toString v \<Longrightarrow> no_toString (nested_field v parts)"
proof (induction parts arbitrary: v)
  case Nil then show ?case by simp
next
  case (Cons part parts)
  show ?case
  proof (cases "truthy v \<and> typeof_object v")
    case False then show ?thesis by auto
  next
    case True
    then have "v \<noteq> JUndefined" "v \<noteq> JNull" by (auto dest: truthy_defined)
    from getprop_defined [OF this, of part] obtain x where x: "getprop v part = Some x" by blast
    from no_toString_getprop [OF Cons.prems x] have "no_toString x" .
    from Cons.IH [OF this] x True show ?thesis by simp
  qed
qed

lemma extractField_defined:
  assumes "v \<noteq> JUndefined" and "v \<noteq> JNull" and "no_toString v"
  shows "\<exists>x. extractField v ks = Some x"
proof (induction ks)
  case Nil show ?case by simp
next
  case (Cons k ks)
  from getprop_defined [OF assms(1,2), of k] obtain a where a: "getprop v k = Some a" by blast
  from getprop_or_defined [OF assms(1,2), of "[k, ''aixm:'' @ k, ''event:'' @ k]"]
  obtain b where b: "getprop_or v [k, ''aixm:'' @ k, ''event:'' @ k] = Some b" by blast
  from Cons.IH obtain r where r: "extractField v ks = Some r" by blast
  from js_String_defined [OF no_toString_getprop [OF assms(3) a]]
  obtain sa where sa: "js_String a = Some sa" by blast
  from js_String_defined [OF no_toString_getprop_or [OF assms(3) b]]
  obtain sb where sb: "js_String b = Some sb" by blast
  from js_String_defined [OF no_toString_nested_field [OF assms(3), of "split_on (CHR ''.'') k"]]
  obtain sn where sn: "js_String (nested_field v (split_on (CHR ''.'') k)) = Some sn" by blast
  show ?case
    using a b r sa sb sn by (simp add: Let_def del: getprop_or.simps)
qed

lemma extractQLine_defined:
  assumes "v \<noteq> JUndefined" and "v \<noteq> JNull" and "no_toString v"
  shows "\<exists>q. extractQLine v = Some q"
proof -
  from getprop_or_defined [OF assms(1,2), of "[''qLine'', ''QLine'', ''aixm:qLine'']"]
  obtain q where q: "getprop_or v [''qLine'', ''QLine'', ''aixm:qLine''] = Some q" by blast
  show ?thesis
  proof (cases "truthy q \<and> typeof_object q")
    case False
    with q show ?thesis by (auto simp: extractQLine_def simp del: getprop_or.simps)
  next
    case True
    then have d: "q \<noteq> JUndefined" "q \<noteq> JNull" by (auto dest: truthy_defined)
    have nq: "no_toString q" using no_toString_getprop_or [OF assms(3) q] .
    from extractField_defined [OF d nq] obtain f1 f2 f3 f4 f5 f6 where
      "extractField q [''purpose'', ''Purpose''] = Some f1"
      "extractField q [''scope'', ''Scope''] = Some f2"
      "extractField q [''trafficType'', ''TrafficType''] = Some f3"
      "extractField q [''lowerAltitude'', ''LowerLimit''] = Some f4"
      "extractField q [''upperAltitude'', ''UpperLimit''] = Some f5"
      "extractField q [''coordinates'', ''Coordinates''] = Some f6"
      by metis
    with q True show ?thesis
      by (simp add: extractQLine_def del: getprop_or.simps extractField.simps)
  qed
qed

lemma validTime_dates_defined:
  assumes "v \<noteq> JUndefined" and "v \<noteq> JNull" and "no_toString v"
  shows "\<exists>d. validTime_dates rt v a b = Some d"
proof -
  from getprop_or_defined [OF assms(1,2), of "[''gml:validTime'', ''validTime'']"]
  obtain vt where vt: "getprop_or v [''gml:validTime'', ''validTime''] = Some vt" by blast
  have nvt: "no_toString vt" using no_toString_getprop_or [OF assms(3) vt] .
  show ?thesis
  proof (cases "truthy vt \<and> typeof_object vt")
    case False
    with vt show ?thesis by (auto simp: validTime_dates_def simp del: getprop_or.simps)
  next
    case True
    then have d: "vt \<noteq> JUndefined" "vt \<noteq> JNull" by (auto dest: truthy_defined)
    from getprop_or_defined [OF d, of "[''gml:TimePeriod'', ''TimePeriod'']"]
    obtain tp where tp: "getprop_or vt [''gml:TimePeriod'', ''TimePeriod''] = Some tp" by blast
    have ntp: "no_toString tp" using no_toString_getprop_or [OF nvt tp] .
    show ?thesis
    proof (cases "truthy tp \<and> typeof_object tp")
      case False
      with vt tp True show ?thesis
        by (auto simp: validTime_dates_def simp del: getprop_or.simps)
    next
      case tpok: True
      then have d': "tp \<noteq> JUndefined" "tp \<noteq> JNull" by (auto dest: truthy_defined)
      from getprop_or_defined [OF d'] obtain bp ep where p:
        "getprop_or tp [''gml:beginPosition'', ''beginPosition''] = Some bp"
        "getprop_or tp [''gml:endPosition'', ''endPosition''] = Some ep"
        by metis
      from js_String_defined [OF no_toString_getprop_or [OF ntp p(1)]]
      obtain sb where sb: "js_String bp = Some sb" by blast
      from js_String_defined [OF no_toString_getprop_or [OF ntp p(2)]]
      obtain se where se: "js_String ep = Some se" by blast
      from vt tp True tpok p sb se show ?thesis
        by (simp add: validTime_dates_def del: getprop_or.simps)
    qed
  qed
qed

lemma absent_getprop_or:
  "keys \<noteq> [] \<Longrightarrow> absent v keys \<Longrightarrow> getprop_or v keys = Some JUndefined"
  by (induction v keys rule: getprop_or.induct) (simp_all add: absent_def)

lemma validTime_dates_absent:
  assumes "absent ets [''gml:validTime'', ''validTime'']"
  shows "validTime_dates rt ets a b = Some (a, b)"
  using absent_getprop_or [OF _ assms]
  by (simp add: validTime_dates_def del: getprop_or.simps)

lemma extractField_location_absent:
  assumes "absent data [''location'', ''aixm:location'', ''event:location'',
                        ''icaoLocation'', ''aixm:icaoLocation'', ''event:icaoLocation'']"
  shows "extractField data [''location'', ''event:location'', ''icaoLocation''] = Some None"
  using assms by (simp add: absent_def)

lemma extractField_start_absent:
  assumes "absent data [''effectiveStart'', ''aixm:effectiveStart'', ''event:effectiveStart'',
                        ''validityStart'', ''aixm:validityStart'', ''event:validityStart'']"
  shows "extractField data [''effectiveStart'', ''event:effectiveStart'', ''validityStart'']
           = Some None"
  using assms by (simp add: absent_def)

lemma extractNOTAMFromData_defined:
  assumes "truthy data" and "truthy ets" and "no_toString data" and "no_toString ets"
  shows "\<exists>n loc startField endField dates.
           extractNOTAMFromData rt now data ets raw = Some n \<and>
           extractField data [''location'', ''event:location'', ''icaoLocation''] = Some loc \<and>
           icao_location n = or_default loc ''ZZZZ'' \<and>
           extractField data [''effectiveStart'', ''event:effectiveStart'', ''validityStart'']
             = Some startField \<and>
           extractField data [''effectiveEnd'', ''event:effectiveEnd'', ''validityEnd'']
             = Some endField \<and>
           validTime_dates rt ets (parseDate rt startField) (parseDate rt endField) = Some dates \<and>
           effective_start n = (case fst dates of None \<Rightarrow> now | Some d \<Rightarrow> d)"
proof -
  have d: "data \<noteq> JUndefined" "data \<noteq> JNull" and e: "ets \<noteq> JUndefined" "ets \<noteq> JNull"
    using assms by (auto dest: truthy_defined)
  from extractField_defined [OF d assms(3)] obtain se nu ye sf ef lo tx pu sc tr where f:
    "extractField data [''series'', ''event:series''] = Some se"
    "extractField data [''number'', ''event:number''] = Some nu"
    "extractField data [''year'', ''event:year''] = Some ye"
    "extractField data [''effectiveStart'', ''event:effectiveStart'', ''validityStart''] = Some sf"
    "extractField data [''effectiveEnd'', ''event:effectiveEnd'', ''validityEnd''] = Some ef"
    "extractField data [''location'', ''event:location'', ''icaoLocation''] = Some lo"
    "extractField data [''text'', ''event:text'', ''notamText'', ''itemE''] = Some tx"
    "extractField data [''purpose'', ''event:purpose''] = Some pu"
    "extractField data [''scope'', ''event:scope''] = Some sc"
    "extractField data [''traffic'', ''event:traffic''] = Some tr"
    by metis
  from extractQLine_defined [OF d assms(3)] obtain q where q: "extractQLine data = Some q" by blast
  from validTime_dates_defined [OF e assms(4), of rt "parseDate rt sf" "parseDate rt ef"]
  obtain dates where
    dt: "validTime_dates rt ets (parseDate rt sf) (parseDate rt ef) = Some dates" by blast
  show ?thesis
    using f q dt
    by (cases dates) (simp add: extractNOTAMFromData_def Let_def del: extractField.simps)
qed

lemma section_of_Some: "section_of v keys = Some x \<Longrightarrow> getprop_or v keys = Some x \<and> truthy x"
  by (auto simp: section_of_def split: option.splits if_splits)

lemma section_of_absent:
  "keys \<noteq> [] \<Longrightarrow> \<forall>k \<in> set keys. getprop v k = Some JUndefined \<Longrightarrow> section_of v keys = None"
proof (induction v keys rule: getprop_or.induct)
  case (1 v) then show ?case by simp
next
  case (2 v k) then show ?case by (simp add: section_of_def)
next
  case (3 v k k' ks)
  then show ?case by (simp add: section_of_def)
qed

lemma parseAIXMMessage_no_chain:
  assumes "xml_parse rt xml = Some parsed" and "event_time_slice_of parsed = None"
  shows "parseAIXMMessage rt now xml = None"
  using assms
  unfolding parseAIXMMessage_def event_time_slice_of_def section_of_def
  by (auto simp del: getprop_or.simps split: option.splits if_splits Option.bind_splits)

lemma parseAIXMMessage_chain:
  assumes "xml_parse rt xml = Some parsed" and "event_time_slice_of parsed = Some ets"
  shows "parseAIXMMessage rt now xml = extractNOTAMFromData rt now (notam_data_of ets) ets xml"
proof -
  from assms(2) obtain message member event timeSlice where c:
    "section_of parsed [''AIXMBasicMessage'', ''aixm:AIXMBasicMessage''] = Some message"
    "section_of message [''hasMember'', ''aixm:hasMember''] = Some member"
    "section_of member [''Event'', ''event:Event'', ''aixm:Event''] = Some event"
    "section_of event [''timeSlice'', ''event:timeSlice'', ''aixm:timeSlice''] = Some timeSlice"
    "section_of timeSlice [''EventTimeSlice'', ''event:EventTimeSlice'', ''aixm:EventTimeSlice'']
       = Some ets"
    by (auto simp: event_time_slice_of_def split: Option.bind_splits)
  note g = c [THEN section_of_Some]
  have e: "ets \<noteq> JUndefined" "ets \<noteq> JNull" using g(5) by (auto dest: truthy_defined)
  from getprop_or_defined [OF e] obtain tn direct where t:
    "getprop_or ets [''textNOTAM'', ''event:textNOTAM''] = Some tn"
    "getprop_or ets [''NOTAM'', ''event:NOTAM''] = Some direct"
    by metis
  have "\<exists>nt. (if tn = JUndefined \<or> tn = JNull then Some JUndefined
               else getprop_or tn [''NOTAM'', ''event:NOTAM'']) = Some nt"
    using getprop_or_defined [of tn "[''NOTAM'', ''event:NOTAM'']"] by auto
  then obtain nt where nt:
    "(if tn = JUndefined \<or> tn = JNull then Some JUndefined
      else getprop_or tn [''NOTAM'', ''event:NOTAM'']) = Some nt" by blast
  have data: "notam_data_of ets = (if truthy nt then nt else if truthy direct then direct else ets)"
    using t nt by (auto simp: notam_data_of_def member_or_undefined_def Let_def
        simp del: getprop_or.simps split: if_splits)
  show ?thesis
    unfolding parseAIXMMessage_def
    using assms(1) g t nt data
    by (simp add: Let_def del: getprop_or.simps)
qed

lemma notam_data_of_truthy: "truthy ets \<Longrightarrow> truthy (notam_data_of ets)"
  by (simp add: notam_data_of_def Let_def)

lemma no_toString_member_or_undefined:
  "no_toString v \<Longrightarrow> no_toString (member_or_undefined v keys)"
  by (auto simp: member_or_undefined_def split: option.splits dest: no_toString_getprop_or)

lemma notam_data_of_no_toString: "no_toString ets \<Longrightarrow> no_toString (notam_data_of ets)"
  by (simp add: notam_data_of_def Let_def no_toString_member_or_undefined)

text \<open>
  C3 (as amended).  When the message, member, event, time-slice or event-time-slice
  section is absent under all of its candidate keys, so that the chain to the event
  time slice does not resolve, the structured path returns null.
\<close>

theorem missing_section_gives_null:
  assumes "xml_parse rt xml = Some parsed" and "event_time_slice_of parsed = None"
  shows "parseAIXMMessage rt now xml = None"
  using assms by (rule parseAIXMMessage_no_chain)

theorem missing_section_gives_null_witness:
  "getprop invalid_tree ''AIXMBasicMessage'' = Some JUndefined \<and>
   getprop invalid_tree ''aixm:AIXMBasicMessage'' = Some JUndefined \<and>
   xml_parse invalid_runtime ''<invalid>xml</invalid>'' = Some invalid_tree \<and>
   event_time_slice_of invalid_tree = None \<and>
   parseAIXMMessage invalid_runtime 0 ''<invalid>xml</invalid>'' = None"
proof -
  have absent: "getprop invalid_tree ''AIXMBasicMessage'' = Some JUndefined"
    "getprop invalid_tree ''aixm:AIXMBasicMessage'' = Some JUndefined"
    by (simp_all add: invalid_tree_def)
  have h1: "xml_parse invalid_runtime ''<invalid>xml</invalid>'' = Some invalid_tree"
    by (simp add: invalid_runtime_def invalid_xml_def)
  have "section_of invalid_tree [''AIXMBasicMessage'', ''aixm:AIXMBasicMessage''] = None"
    using absent by (intro section_of_absent) simp_all
  then have h2: "event_time_slice_of invalid_tree = None"
    by (simp add: event_time_slice_of_def)
  from absent h1 h2 missing_section_gives_null [OF h1 h2] show ?thesis by simp
qed

theorem missing_notice_text_counterexample:
  "getprop bare_event_time_slice ''textNOTAM'' = Some JUndefined \<and>
   getprop bare_event_time_slice ''event:textNOTAM'' = Some JUndefined \<and>
   event_time_slice_of bare_tree = Some bare_event_time_slice \<and>
   map_option notam_id (parseAIXMMessage bare_runtime 0 ''<a/>'') = Some ''A4146/2025''"
  by code_simp

text \<open>
  C10 (as amended).  Once the chain through the event time slice resolves, and no
  element inside the event time slice is named \<open>toString\<close>, the structured path
  returns a record.  Its location is \<open>ZZZZ\<close> when no location field is present, and
  its effective start is the clock reading when there is no valid-time section and the
  start field is missing or is not a date; in general the location is the extracted
  field or \<open>ZZZZ\<close>, and the start is the date found, or the clock reading.
\<close>

theorem resolved_chain_gives_record:
  assumes "xml_parse rt xml = Some parsed"
    and "event_time_slice_of parsed = Some ets"
    and "no_toString ets"
  shows "\<exists>n. parseAIXMMessage rt now xml = Some n \<and>
           (absent (notam_data_of ets)
              [''location'', ''aixm:location'', ''event:location'',
               ''icaoLocation'', ''aixm:icaoLocation'', ''event:icaoLocation'']
            \<longrightarrow> icao_location n = ''ZZZZ'') \<and>
           (absent (notam_data_of ets)
              [''effectiveStart'', ''aixm:effectiveStart'', ''event:effectiveStart'',
               ''validityStart'', ''aixm:validityStart'', ''event:validityStart''] \<and>
            absent ets [''gml:validTime'', ''validTime'']
            \<longrightarrow> effective_start n = now) \<and>
           (\<forall>s. extractField (notam_data_of ets)
                  [''effectiveStart'', ''event:effectiveStart'', ''validityStart'']
                  = Some (Some s) \<and>
                parseDate rt (Some s) = None \<and>
                absent ets [''gml:validTime'', ''validTime'']
                \<longrightarrow> effective_start n = now) \<and>
           (\<exists>loc startField endField dates.
              extractField (notam_data_of ets) [''location'', ''event:location'', ''icaoLocation'']
                = Some loc \<and>
              icao_location n =
                (case loc of None \<Rightarrow> ''ZZZZ'' | Some l \<Rightarrow> if l = [] then ''ZZZZ'' else l) \<and>
              extractField (notam_data_of ets)
                [''effectiveStart'', ''event:effectiveStart'', ''validityStart''] = Some startField \<and>
              extractField (notam_data_of ets)
                [''effectiveEnd'', ''event:effectiveEnd'', ''validityEnd''] = Some endField \<and>
              validTime_dates rt ets (parseDate rt startField) (parseDate rt endField)
                = Some dates \<and>
              effective_start n = (case fst dates of None \<Rightarrow> now | Some d \<Rightarrow> d))"
proof -
  let ?data = "notam_data_of ets"
  have te: "truthy ets"
    using assms(2) by (auto simp: event_time_slice_of_def split: Option.bind_splits
        dest: section_of_Some)
  then have td: "truthy ?data" by (rule notam_data_of_truthy)
  have nd: "no_toString ?data" using assms(3) by (rule notam_data_of_no_toString)
  from extractNOTAMFromData_defined [OF td te nd assms(3), of rt now xml]
  obtain n loc sf ef dates where r:
    "extractNOTAMFromData rt now ?data ets xml = Some n"
    "extractField ?data [''location'', ''event:location'', ''icaoLocation''] = Some loc"
    "icao_location n = or_default loc ''ZZZZ''"
    "extractField ?data [''effectiveStart'', ''event:effectiveStart'', ''validityStart'']
       = Some sf"
    "extractField ?data [''effectiveEnd'', ''event:effectiveEnd'', ''validityEnd''] = Some ef"
    "validTime_dates rt ets (parseDate rt sf) (parseDate rt ef) = Some dates"
    "effective_start n = (case fst dates of None \<Rightarrow> now | Some d \<Rightarrow> d)"
    by blast
  have p: "parseAIXMMessage rt now xml = Some n"
    using r(1) by (simp only: parseAIXMMessage_chain [OF assms(1,2)])
  have c1: "absent ?data [''location'', ''aixm:location'', ''event:location'',
               ''icaoLocation'', ''aixm:icaoLocation'', ''event:icaoLocation'']
            \<longrightarrow> icao_location n = ''ZZZZ''"
  proof
    assume "absent ?data [''location'', ''aixm:location'', ''event:location'',
               ''icaoLocation'', ''aixm:icaoLocation'', ''event:icaoLocation'']"
    from extractField_location_absent [OF this] r(2) have "loc = None" by simp
    with r(3) show "icao_location n = ''ZZZZ''" by (simp add: or_default_def)
  qed
  have novt: "absent ets [''gml:validTime'', ''validTime''] \<Longrightarrow>
                effective_start n = (case parseDate rt sf of None \<Rightarrow> now | Some d \<Rightarrow> d)"
    using validTime_dates_absent [of ets rt "parseDate rt sf" "parseDate rt ef"] r(6,7) by auto
  have c2: "absent ?data [''effectiveStart'', ''aixm:effectiveStart'', ''event:effectiveStart'',
               ''validityStart'', ''aixm:validityStart'', ''event:validityStart''] \<and>
            absent ets [''gml:validTime'', ''validTime'']
            \<longrightarrow> effective_start n = now"
  proof
    assume a: "absent ?data [''effectiveStart'', ''aixm:effectiveStart'', ''event:effectiveStart'',
               ''validityStart'', ''aixm:validityStart'', ''event:validityStart''] \<and>
            absent ets [''gml:validTime'', ''validTime'']"
    from extractField_start_absent [OF a [THEN conjunct1]] r(4) have "sf = None" by simp
    with novt [OF a [THEN conjunct2]] show "effective_start n = now"
      by (simp add: parseDate_def)
  qed
  have c3: "\<forall>s. extractField ?data [''effectiveStart'', ''event:effectiveStart'', ''validityStart'']
                  = Some (Some s) \<and>
                parseDate rt (Some s) = None \<and>
                absent ets [''gml:validTime'', ''validTime'']
                \<longrightarrow> effective_start n = now"
    using novt r(4) by auto
  have c4: "\<exists>loc startField endField dates.
              extractField ?data [''location'', ''event:location'', ''icaoLocation''] = Some loc \<and>
              icao_location n =
                (case loc of None \<Rightarrow> ''ZZZZ'' | Some l \<Rightarrow> if l = [] then ''ZZZZ'' else l) \<and>
              extractField ?data
                [''effectiveStart'', ''event:effectiveStart'', ''validityStart''] = Some startField \<and>
              extractField ?data
                [''effectiveEnd'', ''event:effectiveEnd'', ''validityEnd''] = Some endField \<and>
              validTime_dates rt ets (parseDate rt startField) (parseDate rt endField)
                = Some dates \<and>
              effective_start n = (case fst dates of None \<Rightarrow> now | Some d \<Rightarrow> d)"
    using r(2-7) unfolding or_default_def by blast
  from p c1 c2 c3 c4 show ?thesis by blast
qed

theorem resolved_chain_gives_record_witness:
  "xml_parse bare_runtime ''<a/>'' = Some bare_tree \<and>
   event_time_slice_of bare_tree = Some bare_event_time_slice \<and>
   no_toString bare_event_time_slice \<and>
   (\<exists>n. parseAIXMMessage bare_runtime 7 ''<a/>'' = Some n \<and>
        icao_location n = ''ZZZZ'' \<and> effective_start n = 7)"
proof -
  have h1: "xml_parse bare_runtime ''<a/>'' = Some bare_tree"
    by (simp add: bare_runtime_def bare_xml_def)
  have h2: "event_time_slice_of bare_tree = Some bare_event_time_slice"
    by code_simp
  have h3: "no_toString bare_event_time_slice"
    by code_simp
  have a1: "absent (notam_data_of bare_event_time_slice)
              [''location'', ''aixm:location'', ''event:location'',
               ''icaoLocation'', ''aixm:icaoLocation'', ''event:icaoLocation'']"
    by code_simp
  have a2: "absent (notam_data_of bare_event_time_slice)
              [''effectiveStart'', ''aixm:effectiveStart'', ''event:effectiveStart'',
               ''validityStart'', ''aixm:validityStart'', ''event:validityStart'']"
    by code_simp
  have a3: "absent bare_event_time_slice [''gml:validTime'', ''validTime'']"
    by code_simp
  from resolved_chain_gives_record [OF h1 h2 h3, of 7] a1 a2 a3
  have "\<exists>n. parseAIXMMessage bare_runtime 7 ''<a/>'' = Some n \<and>
             icao_location n = ''ZZZZ'' \<and> effective_start n = 7"
    by blast
  with h1 h2 h3 show ?thesis by blast
qed

theorem toString_member_counterexample:
  "xml_parse toString_runtime ''<a/>'' = Some toString_tree \<and>
   event_time_slice_of toString_tree = Some toString_event_time_slice \<and>
   parseAIXMMessage toString_runtime 0 ''<a/>'' = None"
  by code_simp

section \<open>Properties of the record store\<close>














lemma deleteExpired_Inr:
  assumes "deleteExpired olderThanDays now db = (Inr n, db')"
  shows "n = length (filter (expired now olderThanDays) (rows db)) \<and>
         rows db' = filter (\<lambda>r. \<not> expired now olderThanDays r) (rows db)"
  using assms
  by (auto simp: deleteExpired_def pool_query_def split: list.splits option.splits)

lemma expired_eq:
  "expired now olderThanDays =
     (\<lambda>r. \<exists>e. effective_end r = Some e \<and> e < now - 86400000 * olderThanDays)"
  by (rule ext) (simp add: expired_def split: option.splits)

text \<open>
  C8.  A successful \<open>deleteExpired\<close> keeps exactly the rows whose effective end is null
  or not earlier than \<open>now\<close> minus the retention days, so it removes exactly the rows
  with a non-null effective end earlier than that; every row with a null effective end
  is retained; and the number returned is the number of rows removed.
\<close>

theorem deleteExpired_removes_expired:
  assumes "deleteExpired olderThanDays now db = (Inr n, db')"
  shows "rows db' =
           filter (\<lambda>r. \<not> (\<exists>e. effective_end r = Some e \<and> e < now - 86400000 * olderThanDays))
             (rows db) \<and>
         n = length (filter (\<lambda>r. \<exists>e. effective_end r = Some e \<and> e < now - 86400000 * olderThanDays)
                       (rows db)) \<and>
         n + length (rows db') = length (rows db) \<and>
         (\<forall>r \<in> set (rows db). effective_end r = None \<longrightarrow> r \<in> set (rows db'))"
proof -
  note r = deleteExpired_Inr [OF assms, unfolded expired_eq]
  from r have kept: "rows db' =
      filter (\<lambda>r. \<not> (\<exists>e. effective_end r = Some e \<and> e < now - 86400000 * olderThanDays)) (rows db)"
    by blast
  from r have cnt: "n = length (filter (\<lambda>r. \<exists>e. effective_end r = Some e \<and> e < now - 86400000 * olderThanDays)
                       (rows db))"
    by blast
  have total: "n + length (rows db') = length (rows db)"
    unfolding kept cnt by (rule sum_length_filter_compl)
  have perm: "\<forall>r \<in> set (rows db). effective_end r = None \<longrightarrow> r \<in> set (rows db')"
    unfolding kept by simp
  from kept cnt total perm show ?thesis by blast
qed

theorem deleteExpired_removes_expired_witness:
  "deleteExpired 30 2678400000 sample_db = (Inr 1, pruned_db) \<and>
   1 + length (rows pruned_db) = length (rows sample_db) \<and>
   stored_row 2 ''A2/2020'' ''B'' None \<in> set (rows pruned_db)"
proof -
  have run: "deleteExpired 30 2678400000 sample_db = (Inr 1, pruned_db)"
    by code_simp
  have mem: "stored_row 2 ''A2/2020'' ''B'' None \<in> set (rows sample_db)"
    by (simp add: sample_db_def)
  have perm: "effective_end (stored_row 2 ''A2/2020'' ''B'' None) = None"
    by (simp add: stored_row_def)
  note t = deleteExpired_removes_expired [OF run]
  from t have total: "1 + length (rows pruned_db) = length (rows sample_db)"
    by blast
  from t mem perm have kept: "stored_row 2 ''A2/2020'' ''B'' None \<in> set (rows pruned_db)"
    by blast
  from run total kept show ?thesis by blast
qed

section \<open>Counting against the query predicate\<close>

lemma count_agrees_without_purpose_and_scope:
  assumes "flt_purpose f = None \<or> flt_purpose f = Some []"
    and "flt_scope f = None \<or> flt_scope f = Some []"
  shows "count_conditions (Some f) = findByFilters_conditions f"
  using assms by (auto simp: count_conditions_def findByFilters_conditions_def string_condition_def)

text \<open>
  C1.  With a purpose filter, \<open>count\<close> does not apply the predicate of the query: on the
  sample table, whose first row alone has purpose \<open>N\<close>, the query for purpose \<open>N\<close>
  selects one row and \<open>count\<close> for the same filters returns three.
\<close>

theorem count_ignores_purpose_filter:
  "count (Some (purpose_filter ''N'')) sample_db = (Inr 3, sample_db) \<and>
   findByFilters (purpose_filter ''N'') sample_db =
     (Inr [stored_row 1 ''A1/2020'' ''N'' (Some 5000)], sample_db) \<and>
   length (filter (where_clause (findByFilters_conditions (purpose_filter ''N''))) (rows sample_db)) = 1"
  by code_simp

section \<open>Properties of the message handler\<close>

lemma processMessage_parse_failure:
  "parseMessage rt (t_parse clk) body = None \<Longrightarrow> processMessage rt opts clk body db = (Inr (), db)"
  by (simp add: processMessage_def)

lemma admitted_state:
  "isRequestAllowed cb now s = (True, s1) \<Longrightarrow>
     recordSuccess s1 = s\<lparr>failures := 0, isOpen := False\<rparr>"
  by (auto simp: isRequestAllowed_def recordSuccess_def cb_reset_def Let_def split: if_splits)

lemma denied_state: "isRequestAllowed cb now s = (False, s1) \<Longrightarrow> s1 = s"
  by (auto simp: isRequestAllowed_def Let_def split: if_splits)

text \<open>
  C2 (as amended).  A delivered message whose payload parses to null is acknowledged
  exactly when the breaker admits it.  When admitted, the handler records a success:
  afterwards the failure counter is zero and the breaker is closed, with the
  last-failure timestamp as before.  When admission is denied, the message stays
  unacknowledged and the breaker is unchanged.  The store is untouched either way.
\<close>

theorem parse_failure_handling:
  assumes "messageBody message = Some body"
    and "parseMessage rt (t_parse clk) body = None"
  shows "handleMessage cb rt opts clk message s db =
           (if fst (isRequestAllowed cb (t_admission clk) s)
            then \<lparr>acknowledged = True, breaker = s\<lparr>failures := 0, isOpen := False\<rparr>, store = db\<rparr>
            else \<lparr>acknowledged = False, breaker = s, store = db\<rparr>)"
proof (cases "isRequestAllowed cb (t_admission clk) s")
  case (Pair allowed s1)
  show ?thesis
  proof (cases allowed)
    case True
    with Pair admitted_state [of cb "t_admission clk" s s1] assms show ?thesis
      by (simp add: handleMessage_def processMessage_parse_failure)
  next
    case False
    with Pair denied_state [of cb "t_admission clk" s s1] show ?thesis
      by (simp add: handleMessage_def)
  qed
qed

theorem parse_failure_handling_witness:
  "messageBody (text_message ''NOT A NOTAM'') = Some ''NOT A NOTAM'' \<and>
   parseMessage text_runtime (t_parse sample_clock) ''NOT A NOTAM'' = None \<and>
   handleMessage default_breaker text_runtime default_retry sample_clock
       (text_message ''NOT A NOTAM'') closed_after_two empty_db =
     \<lparr>acknowledged = True, breaker = closed_after_two\<lparr>failures := 0, isOpen := False\<rparr>,
      store = empty_db\<rparr> \<and>
   handleMessage default_breaker text_runtime default_retry sample_clock
       (text_message ''NOT A NOTAM'') open_at_50000 empty_db =
     \<lparr>acknowledged = False, breaker = open_at_50000, store = empty_db\<rparr>"
proof -
  have h1: "messageBody (text_message ''NOT A NOTAM'') = Some ''NOT A NOTAM''"
    by code_simp
  have h2: "parseMessage text_runtime (t_parse sample_clock) ''NOT A NOTAM'' = None"
    by code_simp
  have a1: "fst (isRequestAllowed default_breaker (t_admission sample_clock) closed_after_two)"
    by code_simp
  have a2: "\<not> fst (isRequestAllowed default_breaker (t_admission sample_clock) open_at_50000)"
    by code_simp
  from parse_failure_handling [OF h1 h2, of default_breaker default_retry closed_after_two empty_db]
       parse_failure_handling [OF h1 h2, of default_breaker default_retry open_at_50000 empty_db]
       h1 h2 a1 a2
  show ?thesis by simp
qed

theorem parse_failure_touches_breaker_counterexample:
  "parseMessage text_runtime (t_parse sample_clock) ''NOT A NOTAM'' = None \<and>
   failures closed_after_two = 2 \<and>
   failures (breaker (handleMessage default_breaker text_runtime default_retry sample_clock
       (text_message ''NOT A NOTAM'') closed_after_two empty_db)) = 0 \<and>
   acknowledged (handleMessage default_breaker text_runtime default_retry sample_clock
       (text_message ''NOT A NOTAM'') open_at_50000 empty_db) = False"
  by code_simp

end
